theory Spec2Isabelle
  imports Complex_Main "HOL-Library.RBT"
begin

section \<open>Double arithmetic\<close>

text \<open>
  A finite \<^verbatim>\<open>double\<close> is modelled by the real number it holds, \<open>m \<cdot> 2\<^sup>e\<close> with
  \<open>\<bar>m\<bar> < 2\<^sup>5\<^sup>3\<close> and \<open>- 1074 \<le> e \<le> 971\<close> (IEEE 754 binary64).  An arithmetic
  operation of the sources on \<^verbatim>\<open>double\<close>s is the exact operation followed by
  \<open>roundDouble\<close>: rounding to the nearest such number, a tie going to the even mantissa
  (the default rounding mode).  \<open>ulpExponent x\<close> is the exponent of the last mantissa
  bit at the magnitude of \<open>x\<close>, bounded below where the subnormal numbers begin.

  Infinities and NaN have no counterpart.  A result beyond the largest \<^verbatim>\<open>double\<close>
  stays a real number of that size; where the sources produce such a result (a scaled
  coordinate, the quotient of a distance and a step) they convert it to an integer type
  next, and the conversion is out of range for the real number as it is for an infinity.
\<close>

definition roundEven :: "real \<Rightarrow> int" where
  "roundEven q =
     (let f = \<lfloor>q\<rfloor>; r = q - real_of_int f
      in if r < 1 / 2 then f else if 1 / 2 < r then f + 1 else if even f then f else f + 1)"

definition ulpExponent :: "real \<Rightarrow> int" where
  "ulpExponent x = max (\<lfloor>log 2 \<bar>x\<bar>\<rfloor> - 52) (- 1074)"

definition roundDouble :: "real \<Rightarrow> real" where
  "roundDouble x =
     (if x = 0 then 0
      else real_of_int (roundEven (x / 2 powi ulpExponent x)) * 2 powi ulpExponent x)"

definition isDouble :: "real \<Rightarrow> bool" where
  "isDouble x \<longleftrightarrow> (\<exists>m e. \<bar>m\<bar> < 2 ^ 53 \<and> - 1074 \<le> e \<and> e \<le> 971 \<and> x = real_of_int m * 2 powi e)"

section \<open>The polygon engine as the terrain builder sees it\<close>

text \<open>
  \<^verbatim>\<open>TerraBuilder.cpp\<close> drives ClipperLib (\<^verbatim>\<open>meshing/clipper.hpp\<close>), which is not
  part of the sources at hand.  Its enumerations and container types are written down as
  the builder uses them; what the engine computes is a parameter of every definition
  below (the record \<open>ClipperLib\<close>).  A \<^verbatim>\<open>cInt\<close> (64 bit signed) is modelled by an
  integer.
\<close>

datatype ClipType = ctIntersection | ctUnion | ctDifference | ctXor
datatype PolyType = ptSubject | ptClip
datatype PolyFillType = pftEvenOdd | pftNonZero | pftPositive | pftNegative
datatype JoinType = jtSquare | jtRound | jtMiter
datatype EndType = etClosedPolygon | etClosedLine | etOpenButt | etOpenSquare | etOpenRound

type_synonym IntPoint = "int \<times> int"
type_synonym Path = "IntPoint list"
type_synonym Paths = "Path list"

text \<open>One call of \<^verbatim>\<open>AddPath(path, polyType, closed)\<close>.\<close>

type_synonym PolyEntry = "Path \<times> PolyType \<times> bool"

text \<open>One path handed to \<^verbatim>\<open>ClipperOffset::AddPaths(paths, joinType, endType)\<close>.\<close>

type_synonym OffsetEntry = "Path \<times> JoinType \<times> EndType"

text \<open>
  The state of a \<^verbatim>\<open>Clipper\<close> and of a \<^verbatim>\<open>ClipperOffset\<close>: the paths added since the
  last \<^verbatim>\<open>Clear()\<close>, in the order of the calls.
\<close>

record Clipper =
  polys :: "PolyEntry list"

record ClipperOffset =
  offsetPolys :: "OffsetEntry list"

text \<open>
  What the sources at hand leave open about the library:
  \<^item> \<open>executeClip\<close>: the solution \<^verbatim>\<open>Clipper::Execute\<close> writes, from the clip type, the
    subject and clip fill types and the paths added so far;
  \<^item> \<open>defaultFill\<close>: the fill type \<^verbatim>\<open>Execute(clipType, solution)\<close> uses when the
    caller passes none (the default argument of its declaration);
  \<^item> \<open>executeOffset\<close>: the solution of \<^verbatim>\<open>ClipperOffset::Execute(solution, delta)\<close>;
  \<^item> \<open>areaOf\<close>: \<^verbatim>\<open>ClipperLib::Area(path)\<close>, a \<^verbatim>\<open>double\<close>;
  \<^item> \<open>outOfRange\<close>: the \<^verbatim>\<open>cInt\<close> that the constructor \<^verbatim>\<open>IntPoint(cInt, cInt)\<close>
    receives when it is called with a \<^verbatim>\<open>double\<close> outside the range of \<^verbatim>\<open>cInt\<close>.
    C++ leaves this conversion undefined; the field stands for whatever the compiled
    program delivers.
\<close>

record ClipperLib =
  executeClip :: "ClipType \<Rightarrow> PolyFillType \<Rightarrow> PolyFillType \<Rightarrow> PolyEntry list \<Rightarrow> Paths"
  defaultFill :: PolyFillType
  executeOffset :: "OffsetEntry list \<Rightarrow> real \<Rightarrow> Paths"
  areaOf :: "Path \<Rightarrow> real"
  outOfRange :: "real \<Rightarrow> int"

definition newClipper :: Clipper where
  "newClipper = \<lparr>polys = []\<rparr>"

definition newClipperOffset :: ClipperOffset where
  "newClipperOffset = \<lparr>offsetPolys = []\<rparr>"

definition AddPath :: "Clipper \<Rightarrow> Path \<Rightarrow> PolyType \<Rightarrow> bool \<Rightarrow> Clipper" where
  "AddPath clipper p polyType isClosed = clipper\<lparr>polys := polys clipper @ [(p, polyType, isClosed)]\<rparr>"

definition AddPaths :: "Clipper \<Rightarrow> Paths \<Rightarrow> PolyType \<Rightarrow> bool \<Rightarrow> Clipper" where
  "AddPaths clipper ps polyType isClosed = foldl (\<lambda>c p. AddPath c p polyType isClosed) clipper ps"

definition Clear :: "Clipper \<Rightarrow> Clipper" where
  "Clear clipper = clipper\<lparr>polys := []\<rparr>"

definition Execute :: "ClipperLib \<Rightarrow> Clipper \<Rightarrow> ClipType \<Rightarrow> PolyFillType \<Rightarrow> PolyFillType \<Rightarrow> Paths" where
  "Execute lib clipper clipType subjFillType clipFillType =
     executeClip lib clipType subjFillType clipFillType (polys clipper)"

text \<open>\<^verbatim>\<open>clipper.Execute(clipType, solution)\<close>: no fill type is passed.\<close>

definition ExecuteDefault :: "ClipperLib \<Rightarrow> Clipper \<Rightarrow> ClipType \<Rightarrow> Paths" where
  "ExecuteDefault lib clipper clipType =
     Execute lib clipper clipType (defaultFill lib) (defaultFill lib)"

definition OffsetAddPaths :: "ClipperOffset \<Rightarrow> Paths \<Rightarrow> JoinType \<Rightarrow> EndType \<Rightarrow> ClipperOffset" where
  "OffsetAddPaths offset ps joinType endType =
     offset\<lparr>offsetPolys := offsetPolys offset @ map (\<lambda>p. (p, joinType, endType)) ps\<rparr>"

definition OffsetExecute :: "ClipperLib \<Rightarrow> ClipperOffset \<Rightarrow> real \<Rightarrow> Paths" where
  "OffsetExecute lib offset delta = executeOffset lib (offsetPolys offset) delta"

definition OffsetClear :: "ClipperOffset \<Rightarrow> ClipperOffset" where
  "OffsetClear offset = offset\<lparr>offsetPolys := []\<rparr>"

section \<open>Data of the terrain builder\<close>

text \<open>\<^verbatim>\<open>Point<double>\<close>: the pair of \<^verbatim>\<open>x\<close> and \<^verbatim>\<open>y\<close>.\<close>

type_synonym Point = "real \<times> real"

record MeshRegion =
  points :: "Point list"

record Rectangle =
  xMin :: real
  yMin :: real
  xMax :: real
  yMax :: real

record Mesh =
  vertices :: "real list"
  triangles :: "int list"

record LineGridSplitter =
  gridCellSize :: int
  roundDigitCount :: int

type_synonym MeshRegions = "MeshRegion list"

text \<open>
  \<^verbatim>\<open>RoadMap\<close> is a \<^verbatim>\<open>std::unordered_map\<close>: the order of its traversal is not
  specified, so a road map is given as the sequence of entries its traversal delivers.
  \<^verbatim>\<open>SurfaceMap\<close> is a \<^verbatim>\<open>std::map\<close>: a search tree over the keys, traversed in
  ascending key order.
\<close>

type_synonym RoadMap = "(int \<times> MeshRegions) list"
type_synonym SurfaceMap = "(int, MeshRegions) rbt"

record TerraContext =
  clipRect :: Path
  water :: Paths
  carRoads :: Paths
  walkRoads :: Paths
  surfaces :: Paths
  background :: Paths
  splitter :: LineGridSplitter
  mesh :: Mesh

text \<open>The members \<^verbatim>\<open>waters_\<close>, \<^verbatim>\<open>carRoads_\<close>, \<^verbatim>\<open>walkRoads_\<close> and \<^verbatim>\<open>surfaces_\<close> of
  \<^verbatim>\<open>TerraBuilder\<close>, which \<^verbatim>\<open>build\<close> reads.\<close>

record TerraBuilder =
  waters_mem :: MeshRegions
  carRoads_mem :: RoadMap
  walkRoads_mem :: RoadMap
  surfaces_mem :: SurfaceMap

section \<open>TerraBuilder.cpp\<close>

text \<open>\<^verbatim>\<open>const uint64_t Scale = 1E8; const uint64_t DoubleScale = Scale * Scale;\<close>\<close>

definition Scale :: nat where
  "Scale = 10 ^ 8"


text \<open>
  The conversion of a \<^verbatim>\<open>double\<close> to \<^verbatim>\<open>cInt\<close> that the constructor call
  \<^verbatim>\<open>IntPoint(x, y)\<close> performs on its arguments: the fraction is dropped (rounding
  toward zero) when the result lies in the range of \<^verbatim>\<open>cInt\<close>, that is for
  \<open>- 2\<^sup>6\<^sup>3 - 1 < v < 2\<^sup>6\<^sup>3\<close>.
\<close>

definition inCIntRange :: "real \<Rightarrow> bool" where
  "inCIntRange v \<longleftrightarrow> - (2 ^ 63) - 1 < v \<and> v < 2 ^ 63"

definition toCInt :: "ClipperLib \<Rightarrow> real \<Rightarrow> int" where
  "toCInt lib v =
     (if inCIntRange v then (if 0 \<le> v then \<lfloor>v\<rfloor> else \<lceil>v\<rceil>) else outOfRange lib v)"

definition IntPoint :: "ClipperLib \<Rightarrow> real \<Rightarrow> real \<Rightarrow> IntPoint" where
  "IntPoint lib a b = (toCInt lib a, toCInt lib b)"

text \<open>\<^verbatim>\<open>TerraContext(gridCellSize, roundDigitCount)\<close>: every other member is empty.\<close>

definition newTerraContext :: "int \<Rightarrow> int \<Rightarrow> TerraContext" where
  "newTerraContext cellSize digits =
     \<lparr>clipRect = [], water = [], carRoads = [], walkRoads = [], surfaces = [],
      background = [],
      splitter = \<lparr>gridCellSize = cellSize, roundDigitCount = digits\<rparr>,
      mesh = \<lparr>vertices = [], triangles = []\<rparr>\<rparr>"

text \<open>\<^verbatim>\<open>v.push_back(x)\<close>\<close>

definition push_back :: "'a list \<Rightarrow> 'a \<Rightarrow> 'a list" where
  "push_back v a = v @ [a]"

text \<open>
  In \<^verbatim>\<open>tileRect.xMin*Scale\<close> the integer \<^verbatim>\<open>Scale\<close> is converted to \<^verbatim>\<open>double\<close>
  (exactly) and the product is a product of \<^verbatim>\<open>double\<close>s.
\<close>

definition createPathFromRect :: "ClipperLib \<Rightarrow> Rectangle \<Rightarrow> Path" where
  "createPathFromRect lib tileRect =
     (let rect = [];
          rect = push_back rect (IntPoint lib (roundDouble (xMin tileRect * real Scale))
                                              (roundDouble (yMin tileRect * real Scale)));
          rect = push_back rect (IntPoint lib (roundDouble (xMin tileRect * real Scale))
                                              (roundDouble (yMin tileRect * real Scale)));
          rect = push_back rect (IntPoint lib (roundDouble (xMin tileRect * real Scale))
                                              (roundDouble (yMin tileRect * real Scale)));
          rect = push_back rect (IntPoint lib (roundDouble (xMin tileRect * real Scale))
                                              (roundDouble (yMin tileRect * real Scale)))
      in rect)"

definition clipByRect :: "ClipperLib \<Rightarrow> Clipper \<Rightarrow> Path \<Rightarrow> Paths \<Rightarrow> Paths \<times> Clipper" where
  "clipByRect lib clipper rect subjects =
     (let clipper = AddPaths clipper subjects ptSubject True;
          clipper = AddPath clipper rect ptClip True;
          solution = ExecuteDefault lib clipper ctIntersection;
          clipper = Clear clipper
      in (solution, clipper))"

text \<open>
  \<^verbatim>\<open>Path p(n)\<close> is a vector of \<open>n\<close> value-initialised points \<open>(0, 0)\<close> and
  \<^verbatim>\<open>Paths paths(n)\<close> one of \<open>n\<close> empty paths; the loops then push further elements
  behind them.
\<close>

definition buildPaths :: "ClipperLib \<Rightarrow> MeshRegions \<Rightarrow> Paths" where
  "buildPaths lib regions =
     foldl (\<lambda>paths region.
              let p = foldl (\<lambda>p point. push_back p (IntPoint lib (roundDouble (fst point * real Scale))
                                                                   (roundDouble (snd point * real Scale))))
                            (replicate (length (points region)) (0, 0)) (points region)
              in push_back paths p)
           (replicate (length regions) []) regions"

definition buildOffsetSolution ::
  "ClipperLib \<Rightarrow> Clipper \<Rightarrow> ClipperOffset \<Rightarrow> RoadMap \<Rightarrow> Paths \<times> Clipper \<times> ClipperOffset" where
  "buildOffsetSolution lib clipper offset roads =
     (let (clipper, offset) =
            foldl (\<lambda>(clipper, offset) r.
                     let offset = OffsetAddPaths offset (buildPaths lib (snd r)) jtMiter etOpenSquare;
                         offsetSolution = OffsetExecute lib offset (real_of_int (fst r));
                         clipper = AddPaths clipper offsetSolution ptSubject True;
                         offset = OffsetClear offset
                     in (clipper, offset))
                  (clipper, offset) roads;
          polySolution = Execute lib clipper ctUnion pftPositive pftPositive;
          clipper = Clear clipper
      in (polySolution, clipper, offset))"

definition clipRoads :: "ClipperLib \<Rightarrow> Clipper \<Rightarrow> TerraContext \<Rightarrow> Paths \<Rightarrow> Paths \<times> Clipper" where
  "clipRoads lib clipper context roads =
     (let clipper = AddPaths clipper (water context) ptClip True;
          clipper = AddPaths clipper roads ptSubject True;
          resultRoads = Execute lib clipper ctDifference pftPositive pftPositive;
          clipper = Clear clipper
      in clipByRect lib clipper (clipRect context) resultRoads)"



definition buildWater :: "ClipperLib \<Rightarrow> Clipper \<Rightarrow> TerraContext \<Rightarrow> MeshRegions \<Rightarrow> Clipper \<times> TerraContext" where
  "buildWater lib clipper context regions =
     (let clipper =
            foldl (\<lambda>clipper region.
                     let p = foldl (\<lambda>p point. push_back p (IntPoint lib (roundDouble (fst point * real Scale))
                                                                          (roundDouble (snd point * real Scale))))
                                   (replicate (length (points region)) (0, 0)) (points region)
                     in AddPath clipper p ptSubject True)
                  clipper regions;
          solution = ExecuteDefault lib clipper ctUnion;
          clipper = Clear clipper;
          (clipped, clipper) = clipByRect lib clipper (clipRect context) solution
      in (clipper, context\<lparr>water := clipped\<rparr>))"

definition buildRoads ::
  "ClipperLib \<Rightarrow> Clipper \<Rightarrow> TerraContext \<Rightarrow> RoadMap \<Rightarrow> RoadMap \<Rightarrow> Clipper \<times> TerraContext" where
  "buildRoads lib clipper context carMap walkMap =
     (let offset = newClipperOffset;
          (carRoadPaths, clipper, offset) = buildOffsetSolution lib clipper offset carMap;
          (walkRoadsPaths, clipper, offset) = buildOffsetSolution lib clipper offset walkMap;
          clipper = AddPaths clipper carRoadPaths ptClip True;
          clipper = AddPaths clipper walkRoadsPaths ptSubject True;
          extrudedWalkRoads = ExecuteDefault lib clipper ctDifference;
          clipper = Clear clipper;
          (car, clipper) = clipRoads lib clipper context carRoadPaths;
          context = context\<lparr>carRoads := car\<rparr>;
          (walk, clipper) = clipRoads lib clipper context extrudedWalkRoads;
          context = context\<lparr>walkRoads := walk\<rparr>
      in (clipper, context))"

definition buildSurfaces :: "ClipperLib \<Rightarrow> Clipper \<Rightarrow> TerraContext \<Rightarrow> SurfaceMap \<Rightarrow> Clipper \<times> TerraContext" where
  "buildSurfaces lib clipper context surfaceMap =
     foldl (\<lambda>(clipper, context) surfacePair.
              let paths = buildPaths lib (snd surfacePair);
                  clipper = AddPaths clipper paths ptSubject True;
                  surfacesUnion = ExecuteDefault lib clipper ctUnion;
                  clipper = Clear clipper;
                  clipper = AddPaths clipper (carRoads context) ptClip True;
                  clipper = AddPaths clipper (walkRoads context) ptClip True;
                  clipper = AddPaths clipper (water context) ptClip True;
                  clipper = AddPaths clipper (surfaces context) ptClip True;
                  clipper = AddPaths clipper surfacesUnion ptSubject True;
                  result = Execute lib clipper ctDifference pftPositive pftPositive;
                  clipper = Clear clipper;
                  (result, clipper) = clipByRect lib clipper (clipRect context) result
              in (clipper, context\<lparr>surfaces := surfaces context @ result\<rparr>))
           (clipper, context) (RBT.entries surfaceMap)"

definition buildBackground :: "ClipperLib \<Rightarrow> Clipper \<Rightarrow> TerraContext \<Rightarrow> Clipper \<times> TerraContext" where
  "buildBackground lib clipper context =
     (let clipper = AddPath clipper (clipRect context) ptSubject True;
          clipper = AddPaths clipper (carRoads context) ptClip True;
          clipper = AddPaths clipper (walkRoads context) ptClip True;
          clipper = AddPaths clipper (water context) ptClip True;
          clipper = AddPaths clipper (surfaces context) ptClip True;
          solution = Execute lib clipper ctDifference pftPositive pftPositive;
          clipper = Clear clipper
      in (clipper, context\<lparr>background := solution\<rparr>))"

text \<open>
  \<^verbatim>\<open>TerraBuilder::build\<close> up to its \<^verbatim>\<open>return\<close>: the context after the four stages.
\<close>

definition buildContext :: "ClipperLib \<Rightarrow> TerraBuilder \<Rightarrow> Rectangle \<Rightarrow> TerraContext" where
  "buildContext lib builder tileRect =
     (let clipper = newClipper;
          context = newTerraContext 1 8;
          context = context\<lparr>clipRect := createPathFromRect lib tileRect\<rparr>;
          (clipper, context) = buildWater lib clipper context (waters_mem builder);
          (clipper, context) = buildRoads lib clipper context (carRoads_mem builder) (walkRoads_mem builder);
          (clipper, context) = buildSurfaces lib clipper context (surfaces_mem builder);
          (clipper, context) = buildBackground lib clipper context
      in context)"

definition build :: "ClipperLib \<Rightarrow> TerraBuilder \<Rightarrow> Rectangle \<Rightarrow> Mesh" where
  "build lib builder tileRect = mesh (buildContext lib builder tileRect)"

section \<open>TreeBuilder.cpp\<close>

text \<open>
  \<^verbatim>\<open>TreeBuilder::visitWay\<close> plants copies of one tree mesh along a way.  The types
  and functions it takes from other files (\<^verbatim>\<open>GeoUtils\<close>, \<^verbatim>\<open>MeshUtils\<close>,
  \<^verbatim>\<open>ElementUtils\<close>, the style and elevation providers of the builder context, the
  tree generator) are not among the sources: the mesh is a type parameter, the functions
  are the fields of the record \<open>Collaborators\<close>.
\<close>

record GeoCoordinate =
  latitude :: real
  longitude :: real

type_synonym Vector3 = "real \<times> real \<times> real"

record Way =
  coordinates :: "GeoCoordinate list"

text \<open>A style gives the value of a key: \<^verbatim>\<open>style.getValue(key)\<close>.\<close>

type_synonym Style = "string \<Rightarrow> real"

text \<open>
  \<^item> \<open>newMesh\<close>: the constructor \<^verbatim>\<open>Mesh(name)\<close>;
  \<^item> \<open>getMeshName\<close>: \<^verbatim>\<open>utymap::utils::getMeshName(prefix, way)\<close>;
  \<^item> \<open>forElement\<close>: \<^verbatim>\<open>context_.styleProvider.forElement(way, context_.quadKey.levelOfDetail)\<close>;
  \<^item> \<open>generateTree\<close>: what
    \<^verbatim>\<open>createGenerator(context_, meshContext).setPosition(Vector3(0, 0, 0)).generate()\<close>
    leaves in the mesh of \<^verbatim>\<open>meshContext\<close>, under its style;
  \<^item> \<open>distance\<close>, \<open>newPoint\<close>: \<^verbatim>\<open>GeoUtils::distance\<close>, \<^verbatim>\<open>GeoUtils::newPoint\<close>;
  \<^item> \<open>getElevation\<close>: \<^verbatim>\<open>context_.eleProvider.getElevation\<close>;
  \<^item> \<open>copyMesh\<close>: \<^verbatim>\<open>utymap::utils::copyMesh(position, source, destination)\<close>, as the
    destination it leaves.
\<close>

record 'mesh Collaborators =
  newMesh :: "string \<Rightarrow> 'mesh"
  getMeshName :: "string \<Rightarrow> Way \<Rightarrow> string"
  forElement :: "Way \<Rightarrow> Style"
  generateTree :: "Style \<Rightarrow> 'mesh \<Rightarrow> 'mesh"
  distance :: "GeoCoordinate \<Rightarrow> GeoCoordinate \<Rightarrow> real"
  newPoint :: "GeoCoordinate \<Rightarrow> GeoCoordinate \<Rightarrow> real \<Rightarrow> GeoCoordinate"
  getElevation :: "GeoCoordinate \<Rightarrow> real"
  copyMesh :: "Vector3 \<Rightarrow> 'mesh \<Rightarrow> 'mesh \<Rightarrow> 'mesh"

text \<open>
  Where a run leaves what the model can follow: a read outside a vector, a conversion to
  \<^verbatim>\<open>int\<close> of a value outside its range (both undefined in C++), a quotient by zero
  (an infinity or a NaN, which the reals do not have).
\<close>

datatype fault = OutOfBounds | IntOutOfRange | NotFinite

definition WayMeshNamePrefix :: string where
  "WayMeshNamePrefix = ''trees:''"

definition TreeStepKey :: string where
  "TreeStepKey = ''tree-step''"

text \<open>
  The quotient of two \<^verbatim>\<open>double\<close>s: the exact quotient rounded to the nearest
  \<^verbatim>\<open>double\<close>.
\<close>

definition divide_double :: "real \<Rightarrow> real \<Rightarrow> fault + real" where
  "divide_double a b = (if b = 0 then Inl NotFinite else Inr (roundDouble (a / b)))"

text \<open>
  \<^verbatim>\<open>static_cast<int>(v)\<close> drops the fraction; it is defined when the result fits a
  32 bit \<^verbatim>\<open>int\<close>, that is for \<open>- 2\<^sup>3\<^sup>1 - 1 < v < 2\<^sup>3\<^sup>1\<close>.
\<close>

definition fitsInt :: "real \<Rightarrow> bool" where
  "fitsInt v \<longleftrightarrow> - (2 ^ 31) - 1 < v \<and> v < 2 ^ 31"

definition static_cast_int :: "real \<Rightarrow> fault + int" where
  "static_cast_int v =
     (if fitsInt v then Inr (if 0 \<le> v then \<lfloor>v\<rfloor> else \<lceil>v\<rceil>) else Inl IntOutOfRange)"

text \<open>
  \<^verbatim>\<open>v.size() - 1\<close> in \<^verbatim>\<open>std::size_t\<close> (64 bit): for an empty vector the
  subtraction wraps around.
\<close>

definition sizeMinusOne :: "'a list \<Rightarrow> nat" where
  "sizeMinusOne v = (if v = [] then 2 ^ 64 - 1 else length v - 1)"

text \<open>
  The inner loop \<^verbatim>\<open>for (int j = 0; j < treeCount; ++j)\<close>, from \<open>j\<close> on; \<open>j\<close>
  stays below \<open>treeCount\<close>, so \<^verbatim>\<open>++j\<close> does not overflow.  In
  \<^verbatim>\<open>(double) j / treeCount\<close> both integers are converted to \<^verbatim>\<open>double\<close> (exactly)
  and the quotient is a quotient of \<^verbatim>\<open>double\<close>s.
\<close>

function treeLoop ::
  "'mesh Collaborators \<Rightarrow> 'mesh \<Rightarrow> GeoCoordinate \<Rightarrow> GeoCoordinate \<Rightarrow> int \<Rightarrow> int \<Rightarrow> 'mesh \<Rightarrow> fault + 'mesh" where
  "treeLoop env treeMesh p1 p2 treeCount j newM =
     (if j < treeCount then
        (case divide_double (real_of_int j) (real_of_int treeCount) of
           Inl f \<Rightarrow> Inl f
         | Inr t \<Rightarrow>
             let position = newPoint env p1 p2 t;
                 elevation = getElevation env position;
                 newM = copyMesh env (longitude position, elevation, latitude position) treeMesh newM
             in treeLoop env treeMesh p1 p2 treeCount (j + 1) newM)
      else Inr newM)"
  by pat_completeness auto
termination
  by (relation "measure (\<lambda>(env, treeMesh, p1, p2, treeCount, j, newM). nat (treeCount - j))") auto

text \<open>The outer loop \<^verbatim>\<open>for (std::size_t i = 0; i < way.coordinates.size() - 1; ++i)\<close>, from \<open>i\<close> on.\<close>

function wayLoop ::
  "'mesh Collaborators \<Rightarrow> 'mesh \<Rightarrow> real \<Rightarrow> GeoCoordinate list \<Rightarrow> nat \<Rightarrow> 'mesh \<Rightarrow> fault + 'mesh" where
  "wayLoop env treeMesh treeStepInMeters coords i newM =
     (if i < sizeMinusOne coords then
        (if i + 1 < length coords then
           (let p1 = coords ! i; p2 = coords ! (i + 1) in
            case divide_double (distance env p1 p2) treeStepInMeters of
              Inl f \<Rightarrow> Inl f
            | Inr q \<Rightarrow>
                (case static_cast_int q of
                   Inl f \<Rightarrow> Inl f
                 | Inr treeCount \<Rightarrow>
                     (case treeLoop env treeMesh p1 p2 treeCount 0 newM of
                        Inl f \<Rightarrow> Inl f
                      | Inr newM \<Rightarrow> wayLoop env treeMesh treeStepInMeters coords (i + 1) newM)))
         else Inl OutOfBounds)
      else Inr newM)"
  by pat_completeness auto
termination
  by (relation "measure (\<lambda>(env, treeMesh, treeStepInMeters, coords, i, newM). length coords - i)") auto

text \<open>The result is the mesh handed to \<^verbatim>\<open>context_.meshCallback\<close>.\<close>

definition visitWay :: "'mesh Collaborators \<Rightarrow> Way \<Rightarrow> fault + 'mesh" where
  "visitWay env way =
     (let treeMesh = newMesh env '''';
          newM = newMesh env (getMeshName env WayMeshNamePrefix way);
          style = forElement env way;
          treeMesh = generateTree env style treeMesh;
          treeStepInMeters = style TreeStepKey
      in wayLoop env treeMesh treeStepInMeters (coordinates way) 0 newM)"

section \<open>Names for the calls the stages make\<close>

text \<open>
  The stages are sequences of calls on one \<^verbatim>\<open>Clipper\<close>.  The lemmas below compute,
  for each stage, the paths the engine is run on; \<open>asSubject\<close> and \<open>asClip\<close>
  are the entries \<^verbatim>\<open>AddPaths(ps, ptSubject, true)\<close> and \<^verbatim>\<open>AddPaths(ps, ptClip, true)\<close>
  leave in the clipper, \<open>fixedPath\<close> is the path the two conversion loops build from a
  region.
\<close>

definition asSubject :: "Paths \<Rightarrow> PolyEntry list" where
  "asSubject ps = map (\<lambda>p. (p, ptSubject, True)) ps"

definition asClip :: "Paths \<Rightarrow> PolyEntry list" where
  "asClip ps = map (\<lambda>p. (p, ptClip, True)) ps"

definition scaled :: "ClipperLib \<Rightarrow> Point \<Rightarrow> IntPoint" where
  "scaled lib point =
     IntPoint lib (roundDouble (fst point * real Scale)) (roundDouble (snd point * real Scale))"

definition fixedPath :: "ClipperLib \<Rightarrow> MeshRegion \<Rightarrow> Path" where
  "fixedPath lib region = replicate (length (points region)) (0, 0) @ map (scaled lib) (points region)"

definition offsetOf :: "ClipperLib \<Rightarrow> int \<times> MeshRegions \<Rightarrow> Paths" where
  "offsetOf lib r =
     executeOffset lib (map (\<lambda>p. (p, jtMiter, etOpenSquare)) (buildPaths lib (snd r))) (real_of_int (fst r))"

definition offsetSolutionOf :: "ClipperLib \<Rightarrow> RoadMap \<Rightarrow> Paths" where
  "offsetSolutionOf lib roads = fst (buildOffsetSolution lib newClipper newClipperOffset roads)"

text \<open>What one iteration of the loop of \<^verbatim>\<open>buildSurfaces\<close> appends to \<^verbatim>\<open>context.surfaces\<close>.\<close>

definition surfacePatch :: "ClipperLib \<Rightarrow> TerraContext \<Rightarrow> MeshRegions \<Rightarrow> Paths" where
  "surfacePatch lib context regions =
     fst (clipByRect lib newClipper (clipRect context)
       (executeClip lib ctDifference pftPositive pftPositive
          (asClip (carRoads context) @ asClip (walkRoads context) @ asClip (water context) @
           asClip (surfaces context) @
           asSubject (executeClip lib ctUnion (defaultFill lib) (defaultFill lib)
                        (asSubject (buildPaths lib regions))))))"

fun commitSurfaces :: "ClipperLib \<Rightarrow> TerraContext \<Rightarrow> (int \<times> MeshRegions) list \<Rightarrow> TerraContext" where
  "commitSurfaces lib context [] = context"
| "commitSurfaces lib context (e # es) =
     commitSurfaces lib (context\<lparr>surfaces := surfaces context @ surfacePatch lib context (snd e)\<rparr>) es"

definition afterWater :: "ClipperLib \<Rightarrow> TerraBuilder \<Rightarrow> Rectangle \<Rightarrow> TerraContext" where
  "afterWater lib builder tileRect =
     snd (buildWater lib newClipper ((newTerraContext 1 8)\<lparr>clipRect := createPathFromRect lib tileRect\<rparr>)
            (waters_mem builder))"

definition afterRoads :: "ClipperLib \<Rightarrow> TerraBuilder \<Rightarrow> Rectangle \<Rightarrow> TerraContext" where
  "afterRoads lib builder tileRect =
     snd (buildRoads lib newClipper (afterWater lib builder tileRect)
            (carRoads_mem builder) (walkRoads_mem builder))"

definition afterSurfaces :: "ClipperLib \<Rightarrow> TerraBuilder \<Rightarrow> Rectangle \<Rightarrow> TerraContext" where
  "afterSurfaces lib builder tileRect =
     snd (buildSurfaces lib newClipper (afterRoads lib builder tileRect) (surfaces_mem builder))"

section \<open>The loop of populateMesh with its open end\<close>


section \<open>Where the trees of a way stand\<close>

text \<open>
  The placement of the trees: for the consecutive pair \<open>(p1, p2)\<close> the count is the
  integer part of the \<^verbatim>\<open>double\<close> quotient of the distance and the step, and the copies
  stand at the points \<open>newPoint p1 p2 t\<close> for the \<^verbatim>\<open>double\<close> quotients \<open>t\<close> of
  \<open>j\<close> and the count, \<open>j = 0, \<dots>, count - 1\<close>; a copy stands at longitude, elevation and
  latitude of its point.
\<close>

definition treeFractions :: "int \<Rightarrow> real list" where
  "treeFractions treeCount =
     map (\<lambda>j. roundDouble (real_of_int j / real_of_int treeCount)) [0..treeCount - 1]"

definition segmentPositions ::
  "'mesh Collaborators \<Rightarrow> real \<Rightarrow> GeoCoordinate \<Rightarrow> GeoCoordinate \<Rightarrow> GeoCoordinate list" where
  "segmentPositions env step p1 p2 =
     map (newPoint env p1 p2) (treeFractions \<lfloor>roundDouble (distance env p1 p2 / step)\<rfloor>)"

definition segments :: "GeoCoordinate list \<Rightarrow> (GeoCoordinate \<times> GeoCoordinate) list" where
  "segments coords = zip coords (tl coords)"

definition placedPositions :: "'mesh Collaborators \<Rightarrow> real \<Rightarrow> GeoCoordinate list \<Rightarrow> GeoCoordinate list" where
  "placedPositions env step coords =
     concat (map (\<lambda>(p1, p2). segmentPositions env step p1 p2) (segments coords))"

definition placeCopy :: "'mesh Collaborators \<Rightarrow> 'mesh \<Rightarrow> 'mesh \<Rightarrow> GeoCoordinate \<Rightarrow> 'mesh" where
  "placeCopy env treeMesh m position =
     copyMesh env (longitude position, getElevation env position, latitude position) treeMesh m"

definition placeCopies :: "'mesh Collaborators \<Rightarrow> 'mesh \<Rightarrow> GeoCoordinate list \<Rightarrow> 'mesh \<Rightarrow> 'mesh" where
  "placeCopies env treeMesh positions m = foldl (placeCopy env treeMesh) m positions"

text \<open>Every segment's \<^verbatim>\<open>double\<close> quotient lies in the range of \<^verbatim>\<open>int\<close>.\<close>

definition inIntRange :: "'mesh Collaborators \<Rightarrow> real \<Rightarrow> GeoCoordinate list \<Rightarrow> bool" where
  "inIntRange env step coords =
     list_all (\<lambda>(p1, p2). fitsInt (roundDouble (distance env p1 p2 / step))) (segments coords)"

text \<open>The step and every segment's distance are \<^verbatim>\<open>double\<close>s.\<close>

definition doubleDistances :: "'mesh Collaborators \<Rightarrow> real \<Rightarrow> GeoCoordinate list \<Rightarrow> bool" where
  "doubleDistances env step coords \<longleftrightarrow>
     isDouble step \<and> list_all (\<lambda>(p1, p2). isDouble (distance env p1 p2)) (segments coords)"

section \<open>The grid snapper\<close>

text \<open>
  Modelled from the spec: the grid snapper (\<^verbatim>\<open>terrain/LineGridSplitter.hpp\<close> is not
  among the sources).  Sections 2 and 6: it "quantizes coordinates onto a shared grid",
  is "configured with a cell size and a coordinate rounding precision" and
  "deterministically maps near-equal input coordinates to identical output coordinates".
  A coordinate is rounded to \<open>roundDigitCount\<close> decimal digits, in \<^verbatim>\<open>double\<close>
  arithmetic: the product with \<open>10\<^sup>d\<close> is rounded to the nearest integer, and the
  integer divided by \<open>10\<^sup>d\<close>.
\<close>

definition snapCoordinate :: "LineGridSplitter \<Rightarrow> real \<Rightarrow> real" where
  "snapCoordinate s v =
     roundDouble (real_of_int (round (roundDouble (v * 10 ^ nat (roundDigitCount s))))
                    / 10 ^ nat (roundDigitCount s))"

definition snapPoint :: "LineGridSplitter \<Rightarrow> Point \<Rightarrow> Point" where
  "snapPoint s p = (snapCoordinate s (fst p), snapCoordinate s (snd p))"

definition snapRegion :: "LineGridSplitter \<Rightarrow> MeshRegion \<Rightarrow> MeshRegion" where
  "snapRegion s region = region\<lparr>points := map (snapPoint s) (points region)\<rparr>"

section \<open>Inputs of the examples\<close>

text \<open>The scenario of the spec: tile \<open>(0,0)-(10,10)\<close>, one water square \<open>(0,0)-(5,5)\<close>.\<close>

definition scenarioTile :: Rectangle where
  "scenarioTile = \<lparr>xMin = 0, yMin = 0, xMax = 10, yMax = 10\<rparr>"

definition scenarioBuilder :: TerraBuilder where
  "scenarioBuilder =
     \<lparr>waters_mem = [\<lparr>points = [(0, 0), (5, 0), (5, 5), (0, 5)]\<rparr>],
      carRoads_mem = [], walkRoads_mem = [], surfaces_mem = RBT.empty\<rparr>"

text \<open>Two squares, \<open>(2,2)-(6,6)\<close> and \<open>(4,4)-(8,8)\<close>, that overlap in \<open>(4,4)-(6,6)\<close>.\<close>

definition overlappingSquares :: MeshRegions where
  "overlappingSquares =
     [\<lparr>points = [(2, 2), (6, 2), (6, 6), (2, 6)]\<rparr>,
      \<lparr>points = [(4, 4), (8, 4), (8, 8), (4, 8)]\<rparr>]"

text \<open>A builder whose water is the two squares, and a surface map with the two squares under one key.\<close>

definition overlappingWaters :: TerraBuilder where
  "overlappingWaters =
     \<lparr>waters_mem = overlappingSquares, carRoads_mem = [], walkRoads_mem = [], surfaces_mem = RBT.empty\<rparr>"

definition overlappingSurfaces :: SurfaceMap where
  "overlappingSurfaces = RBT.insert 1 overlappingSquares RBT.empty"

text \<open>
  An engine for running the code on concrete inputs: a solution is the list of the paths
  added, an offset returns its paths, the area of a path is \<open>5 \<cdot> 10\<^sup>1\<^sup>2\<close> times the
  number of its points, and a conversion out of range gives \<open>- 2\<^sup>6\<^sup>3\<close>.
\<close>

definition echoLib :: ClipperLib where
  "echoLib =
     \<lparr>executeClip = (\<lambda>clipType subjFillType clipFillType entries. map fst entries),
      defaultFill = pftEvenOdd,
      executeOffset = (\<lambda>entries delta. map fst entries),
      areaOf = (\<lambda>p. 5000000000000 * real (length p)),
      outOfRange = (\<lambda>v. - (2 ^ 63))\<rparr>"


text \<open>
  Collaborators on a line: a mesh is the list of its vertices, a copy appends the
  source's vertices moved by the position, the distance is the sum of the differences
  in latitude and longitude, the elevation is zero and the tree is one vertex.
\<close>

definition lineCollaborators :: "real \<Rightarrow> (Vector3 list) Collaborators" where
  "lineCollaborators step =
     \<lparr>newMesh = (\<lambda>name. []),
      getMeshName = (\<lambda>prefix way. prefix),
      forElement = (\<lambda>way key. if key = TreeStepKey then step else 0),
      generateTree = (\<lambda>style m. [(0, 0, 0)]),
      distance = (\<lambda>p q. \<bar>latitude q - latitude p\<bar> + \<bar>longitude q - longitude p\<bar>),
      newPoint = (\<lambda>p q t. \<lparr>latitude = latitude p + t * (latitude q - latitude p),
                              longitude = longitude p + t * (longitude q - longitude p)\<rparr>),
      getElevation = (\<lambda>p. 0),
      copyMesh = (\<lambda>v source destination.
                    destination @ map (\<lambda>w. (fst w + fst v, fst (snd w) + fst (snd v),
                                               snd (snd w) + snd (snd v))) source)\<rparr>"

definition lineWay :: Way where
  "lineWay = \<lparr>coordinates = [\<lparr>latitude = 0, longitude = 0\<rparr>, \<lparr>latitude = 0, longitude = 10\<rparr>,
                             \<lparr>latitude = 0, longitude = 13\<rparr>]\<rparr>"

definition longWay :: Way where
  "longWay = \<lparr>coordinates = [\<lparr>latitude = 0, longitude = 0\<rparr>, \<lparr>latitude = 0, longitude = 1000\<rparr>]\<rparr>"

definition unitWay :: Way where
  "unitWay = \<lparr>coordinates = [\<lparr>latitude = 0, longitude = 0\<rparr>, \<lparr>latitude = 0, longitude = 1\<rparr>]\<rparr>"

text \<open>The \<^verbatim>\<open>double\<close> nearest to \<open>1 / 10\<close>, the value of the literal \<^verbatim>\<open>0.1\<close>.\<close>

definition tenth :: real where
  "tenth = 3602879701896397 / 2 ^ 55"

declare treeLoop.simps [simp del]
declare wayLoop.simps [simp del]

section \<open>Rounding to the nearest double\<close>

lemma roundEven_of_int: "roundEven (real_of_int k) = k"
  by (simp add: roundEven_def)

lemma roundEven_le: "q < real_of_int m + 1 / 2 \<Longrightarrow> roundEven q \<le> m"
  unfolding roundEven_def Let_def by (auto; linarith)

lemma roundEven_ge: "real_of_int m - 1 / 2 < q \<Longrightarrow> m \<le> roundEven q"
  unfolding roundEven_def Let_def by (auto; linarith)

lemma floor_log2_eq:
  "0 < x \<Longrightarrow> \<lfloor>log 2 x\<rfloor> = k \<longleftrightarrow> 2 powi k \<le> x \<and> x < 2 powi (k + 1)"
proof -
  assume "0 < x"
  have "(2::real) powr real_of_int (k + 1) = 2 powi (k + 1)"
    by (rule powr_real_of_int') simp_all
  moreover have "(2::real) powr real_of_int k = 2 powi k"
    by (rule powr_real_of_int') simp_all
  ultimately show ?thesis
    using floor_log_eq_powr_iff [of x 2 k] \<open>0 < x\<close> by simp
qed

lemma ulpExponent_eval:
  assumes "2 powi k \<le> \<bar>x\<bar>" and "\<bar>x\<bar> < 2 powi (k + 1)"
  shows "ulpExponent x = max (k - 52) (- 1074)"
proof -
  have "0 < \<bar>x\<bar>" using assms(1) by (smt (verit) zero_less_power_int)
  then have "\<lfloor>log 2 \<bar>x\<bar>\<rfloor> = k" using assms by (simp add: floor_log2_eq)
  then show ?thesis by (simp add: ulpExponent_def)
qed

lemma roundDouble_eval:
  assumes "2 powi k \<le> \<bar>x\<bar>" and "\<bar>x\<bar> < 2 powi (k + 1)"
  shows "roundDouble x =
           real_of_int (roundEven (x / 2 powi max (k - 52) (- 1074))) * 2 powi max (k - 52) (- 1074)"
proof -
  have "x \<noteq> 0" using assms(1) by (smt (verit) zero_less_power_int)
  then show ?thesis
    by (simp add: roundDouble_def ulpExponent_eval [OF assms])
qed

lemma ulpExponent_le:
  assumes "x \<noteq> 0" and "\<bar>x\<bar> < 2 powi (e + 53)" and "- 1074 \<le> e"
  shows "ulpExponent x \<le> e"
proof -
  define k where "k = \<lfloor>log 2 \<bar>x\<bar>\<rfloor>"
  have "0 < \<bar>x\<bar>" using assms(1) by simp
  then have "2 powi k \<le> \<bar>x\<bar>" using floor_log2_eq [of "\<bar>x\<bar>" k] by (simp add: k_def)
  with assms(2) have "(2::real) powi k < 2 powi (e + 53)" by simp
  then have "k < e + 53"
    by (smt (verit) power_int_increasing)
  with assms(3) show ?thesis by (simp add: ulpExponent_def k_def)
qed

lemma roundDouble_exact:
  assumes "isDouble x"
  shows "roundDouble x = x"
proof (cases "x = 0")
  case True
  then show ?thesis by (simp add: roundDouble_def)
next
  case False
  from assms obtain m e where m: "\<bar>m\<bar> < 2 ^ 53" and e: "- 1074 \<le> e"
    and x: "x = real_of_int m * 2 powi e"
    by (auto simp: isDouble_def)
  define E where "E = ulpExponent x"
  have "\<bar>x\<bar> = real_of_int \<bar>m\<bar> * 2 powi e"
    by (simp add: x abs_mult)
  also have "\<dots> < 2 ^ 53 * 2 powi e"
    using m by (intro mult_strict_right_mono) simp_all
  also have "\<dots> = 2 powi (e + 53)"
    by (simp add: power_int_add)
  finally have "E \<le> e"
    unfolding E_def using False e by (intro ulpExponent_le) simp_all
  then have split: "(2::real) powi e = 2 ^ nat (e - E) * 2 powi E"
    by (simp add: power_int_diff flip: power_int_of_nat)
  have "x / 2 powi E = real_of_int (m * 2 ^ nat (e - E))"
    by (simp add: x split)
  then have "roundEven (x / 2 powi E) = m * 2 ^ nat (e - E)"
    by (simp only: roundEven_of_int)
  then show ?thesis
    using False by (simp add: roundDouble_def E_def [symmetric]) (simp add: x split)
qed


lemma roundEven_eq:
  "real_of_int m - 1 / 2 < q \<Longrightarrow> q < real_of_int m + 1 / 2 \<Longrightarrow> roundEven q = m"
  using roundEven_le [of q m] roundEven_ge [of m q] by simp

lemma roundEven_minus: "roundEven (- q) = - roundEven q"
proof -
  define f where "f = \<lfloor>q\<rfloor>"
  define r where "r = q - real_of_int f"
  have q: "q = real_of_int f + r" by (simp add: r_def)
  have r: "0 \<le> r" "r < 1" unfolding r_def f_def by linarith+
  consider "r < 1 / 2" | "1 / 2 < r" | "r = 1 / 2" by linarith
  then show ?thesis
  proof cases
    case 1
    have "roundEven q = f" by (rule roundEven_eq) (use 1 r q in simp_all)
    moreover have "roundEven (- q) = - f" by (rule roundEven_eq) (use 1 r q in simp_all)
    ultimately show ?thesis by simp
  next
    case 2
    have "roundEven q = f + 1" by (rule roundEven_eq) (use 2 r q in simp_all)
    moreover have "roundEven (- q) = - f - 1" by (rule roundEven_eq) (use 2 r q in simp_all)
    ultimately show ?thesis by simp
  next
    case 3
    have fl: "\<lfloor>- q\<rfloor> = - f - 1"
      by (rule floor_unique) (use 3 q in simp_all)
    have "q - real_of_int \<lfloor>q\<rfloor> = 1 / 2"
      using 3 by (simp add: r_def f_def)
    then have a: "roundEven q = (if even f then f else f + 1)"
      unfolding roundEven_def Let_def by (simp add: f_def)
    have "- q - real_of_int (- f - 1) = 1 / 2"
      using 3 q by simp
    then have b: "roundEven (- q) = (if even (- f - 1) then - f - 1 else - f - 1 + 1)"
      unfolding roundEven_def Let_def fl by simp
    show ?thesis
      unfolding a b by simp
  qed
qed

lemma roundDouble_minus: "roundDouble (- x) = - roundDouble x"
proof -
  have "ulpExponent (- x) = ulpExponent x" by (simp add: ulpExponent_def)
  then show ?thesis
    by (simp add: roundDouble_def roundEven_minus)
qed

lemma roundDouble_ge_grid:
  assumes m: "\<bar>m\<bar> < 2 ^ 53" and e: "- 1074 \<le> e" and le: "real_of_int m * 2 powi e \<le> x"
  shows "real_of_int m * 2 powi e \<le> roundDouble x"
proof (cases "x = 0")
  case True
  with le show ?thesis by (simp add: roundDouble_def)
next
  case False
  define E where "E = ulpExponent x"
  define p :: real where "p = 2 powi E"
  have p: "0 < p" by (simp add: p_def)
  have rd: "roundDouble x = real_of_int (roundEven (x / p)) * p"
    using False by (simp add: roundDouble_def E_def p_def)
  show ?thesis
  proof (cases "E \<le> e")
    case True
    then have split: "(2::real) powi e = 2 ^ nat (e - E) * p"
      by (simp add: p_def power_int_diff flip: power_int_of_nat)
    define M where "M = m * 2 ^ nat (e - E)"
    have d: "real_of_int m * 2 powi e = real_of_int M * p"
      by (simp add: M_def split)
    with le p have "real_of_int M \<le> x / p"
      by (simp add: pos_le_divide_eq)
    then have "real_of_int M - 1 / 2 < x / p"
      by linarith
    then have "M \<le> roundEven (x / p)"
      by (rule roundEven_ge)
    then have "real_of_int M * p \<le> real_of_int (roundEven (x / p)) * p"
      using p by simp
    then show ?thesis by (simp add: d rd)
  next
    case False
    with e have "- 1074 < E" by simp
    then have E: "E = \<lfloor>log 2 \<bar>x\<bar>\<rfloor> - 52"
      by (simp add: E_def ulpExponent_def max_def split: if_splits)
    define k where "k = E + 52"
    have "\<lfloor>log 2 \<bar>x\<bar>\<rfloor> = k" by (simp add: k_def E)
    with \<open>x \<noteq> 0\<close> have low: "2 powi k \<le> \<bar>x\<bar>"
      using floor_log2_eq [of "\<bar>x\<bar>" k] by simp
    have pk: "(2::real) powi k = 2 ^ 52 * p"
      by (simp add: k_def p_def power_int_add)
    have "\<bar>real_of_int m * 2 powi e\<bar> = real_of_int \<bar>m\<bar> * 2 powi e"
      by (simp add: abs_mult)
    also have "\<dots> < 2 ^ 53 * 2 powi e"
      using m by (intro mult_strict_right_mono) simp_all
    also have "\<dots> = 2 powi (e + 53)"
      by (simp add: power_int_add)
    also have "\<dots> \<le> 2 powi k"
      using False by (intro power_int_increasing) (simp_all add: k_def)
    finally have small: "\<bar>real_of_int m * 2 powi e\<bar> < 2 powi k" .
    show ?thesis
    proof (cases "0 < x")
      case True
      with low pk have "real_of_int (2 ^ 52) \<le> x / p"
        using p by (simp add: pos_le_divide_eq)
      then have "real_of_int (2 ^ 52) - 1 / 2 < x / p"
        by linarith
      then have "2 ^ 52 \<le> roundEven (x / p)"
        by (rule roundEven_ge)
      then have "real_of_int (2 ^ 52) * p \<le> real_of_int (roundEven (x / p)) * p"
        using p by (simp del: of_int_power of_int_numeral)
      then have "2 powi k \<le> roundDouble x"
        by (simp add: rd pk)
      with small show ?thesis by linarith
    next
      case False
      with \<open>x \<noteq> 0\<close> le low small show ?thesis by linarith
    qed
  qed
qed

lemma roundDouble_le_grid:
  assumes m: "\<bar>m\<bar> < 2 ^ 53" and e: "- 1074 \<le> e" and le: "x \<le> real_of_int m * 2 powi e"
  shows "roundDouble x \<le> real_of_int m * 2 powi e"
proof -
  have "real_of_int (- m) * 2 powi e \<le> roundDouble (- x)"
    using m e le by (intro roundDouble_ge_grid) simp_all
  then show ?thesis by (simp add: roundDouble_minus)
qed

lemma roundDouble_nonneg: "0 \<le> x \<Longrightarrow> 0 \<le> roundDouble x"
  using roundDouble_ge_grid [of 0 0 x] by simp


lemma roundDouble_ge_one: "1 \<le> x \<Longrightarrow> 1 \<le> roundDouble x"
  using roundDouble_ge_grid [of 1 0 x] by simp



lemma isDoubleI:
  "\<bar>m\<bar> < 2 ^ 53 \<Longrightarrow> - 1074 \<le> e \<Longrightarrow> e \<le> 971 \<Longrightarrow> x = real_of_int m * 2 powi e \<Longrightarrow> isDouble x"
  unfolding isDouble_def by blast

lemma roundDouble_eqI:
  assumes "2 powi k \<le> \<bar>x\<bar>" and "\<bar>x\<bar> < 2 powi (k + 1)" and "- 1022 \<le> k"
    and "real_of_int m - 1 / 2 < x / 2 powi (k - 52)" and "x / 2 powi (k - 52) < real_of_int m + 1 / 2"
  shows "roundDouble x = real_of_int m * 2 powi (k - 52)"
proof -
  have "max (k - 52) (- 1074) = k - 52" using assms(3) by simp
  then show ?thesis
    using roundDouble_eval [OF assms(1,2)] roundEven_eq [OF assms(4,5)] by simp
qed

lemma quotient_below_one:
  assumes d: "isDouble d" and s: "isDouble s" and less: "d < s" and pos: "0 < s"
  shows "d / s \<le> 1 - 1 / 2 ^ 53"
proof -
  from d obtain a e where a: "\<bar>a\<bar> < 2 ^ 53" and dd: "d = real_of_int a * 2 powi e"
    by (auto simp: isDouble_def)
  from s obtain b f where b: "\<bar>b\<bar> < 2 ^ 53" and ss: "s = real_of_int b * 2 powi f"
    by (auto simp: isDouble_def)
  have ra: "real_of_int a < 2 ^ 53" and rb: "real_of_int b < 2 ^ 53"
    using a b by simp_all
  have gap: "s / 2 ^ 53 \<le> s - d"
  proof (cases "f \<le> e")
    case True
    then have split: "(2::real) powi e = 2 ^ nat (e - f) * 2 powi f"
      by (simp add: power_int_diff flip: power_int_of_nat)
    define A where "A = a * 2 ^ nat (e - f)"
    have dA: "d = real_of_int A * 2 powi f"
      by (simp add: dd A_def split)
    from less have "real_of_int A * 2 powi f < real_of_int b * 2 powi f"
      by (simp add: dA ss)
    then have "real_of_int A < real_of_int b"
      by (simp add: mult_less_cancel_right)
    then have "A + 1 \<le> b" by simp
    then have "real_of_int A + 1 \<le> real_of_int b"
      by (metis of_int_1 of_int_add of_int_le_iff)
    then have "(real_of_int A + 1) * 2 powi f \<le> real_of_int b * 2 powi f"
      by (intro mult_right_mono) simp_all
    then have one: "2 powi f \<le> s - d"
      by (simp add: dA ss algebra_simps)
    have "s / 2 ^ 53 = (real_of_int b / 2 ^ 53) * 2 powi f"
      by (simp add: ss)
    also have "\<dots> \<le> 1 * 2 powi f"
      using rb by (intro mult_right_mono) simp_all
    finally show ?thesis using one by simp
  next
    case False
    then have split: "(2::real) powi f = 2 ^ nat (f - e) * 2 powi e"
      by (simp add: power_int_diff flip: power_int_of_nat)
    define B where "B = b * 2 ^ nat (f - e)"
    define u :: real where "u = 2 powi e"
    have u: "0 < u" by (simp add: u_def)
    have sB: "s = real_of_int B * u"
      by (simp add: ss B_def split u_def)
    have da: "d = real_of_int a * u"
      by (simp add: dd u_def)
    from less have "real_of_int a * u < real_of_int B * u"
      by (simp add: da sB)
    then have "real_of_int a < real_of_int B"
      using u by (simp add: mult_less_cancel_right)
    then have "a + 1 \<le> B" by simp
    then have aB: "real_of_int a + 1 \<le> real_of_int B"
      by (metis of_int_1 of_int_add of_int_le_iff)
    have a53: "real_of_int a + 1 \<le> 2 ^ 53"
    proof -
      from a have "a + 1 \<le> 2 ^ 53" by simp
      then have "real_of_int (a + 1) \<le> real_of_int (2 ^ 53)"
        by (simp only: of_int_le_iff)
      then show ?thesis by simp
    qed
    have "real_of_int B / 2 ^ 53 \<le> real_of_int B - real_of_int a"
    proof (cases "real_of_int B \<le> 2 ^ 53")
      case True
      then have "real_of_int B / 2 ^ 53 \<le> 1" by simp
      with aB show ?thesis by linarith
    next
      case False
      then have "(2 ^ 53 - 1) \<le> real_of_int B * ((2 ^ 53 - 1) / 2 ^ 53)"
        by simp
      moreover have "real_of_int B * ((2 ^ 53 - 1) / 2 ^ 53) = real_of_int B - real_of_int B / 2 ^ 53"
        by (simp add: field_simps)
      ultimately show ?thesis using a53 by linarith
    qed
    then have "(real_of_int B / 2 ^ 53) * u \<le> (real_of_int B - real_of_int a) * u"
      using u by (intro mult_right_mono) simp_all
    then show ?thesis
      by (simp add: sB da algebra_simps)
  qed
  have "d \<le> s * (1 - 1 / 2 ^ 53)"
    using gap by (simp add: algebra_simps)
  then show ?thesis
    using pos by (simp add: pos_divide_le_eq mult.commute)
qed

lemma roundDouble_quotient_less_one:
  assumes "isDouble d" and "isDouble s" and "d < s" and "0 < s"
  shows "roundDouble (d / s) < 1"
proof -
  have "d / s \<le> real_of_int (2 ^ 53 - 1) * 2 powi (- 53)"
    using quotient_below_one [OF assms] by (simp add: power_int_minus field_simps)
  then have "roundDouble (d / s) \<le> real_of_int (2 ^ 53 - 1) * 2 powi (- 53)"
    by (intro roundDouble_le_grid) simp_all
  also have "\<dots> < 1" by (simp add: power_int_minus)
  finally show ?thesis .
qed

lemma roundDouble_fraction_less_one:
  assumes "0 \<le> j" and "j < n" and "n < 2 ^ 31"
  shows "0 \<le> roundDouble (real_of_int j / real_of_int n) \<and> roundDouble (real_of_int j / real_of_int n) < 1"
proof
  show "0 \<le> roundDouble (real_of_int j / real_of_int n)"
    using assms by (intro roundDouble_nonneg) simp
  have n: "0 < real_of_int n" "real_of_int n \<le> 2 ^ 31"
    using assms by simp_all
  have "real_of_int j + 1 \<le> real_of_int n"
    using assms(2) by (metis of_int_1 of_int_add of_int_le_iff zless_imp_add1_zle)
  then have "real_of_int j / real_of_int n \<le> 1 - 1 / real_of_int n"
    using n by (simp add: field_simps)
  also have "\<dots> \<le> 1 - 1 / 2 ^ 31"
    using n by (simp add: field_simps)
  also have "\<dots> = real_of_int (2 ^ 31 - 1) * 2 powi (- 31)"
    by (simp add: power_int_minus field_simps)
  finally have "roundDouble (real_of_int j / real_of_int n) \<le> real_of_int (2 ^ 31 - 1) * 2 powi (- 31)"
    by (intro roundDouble_le_grid) simp_all
  also have "\<dots> < 1" by (simp add: power_int_minus)
  finally show "roundDouble (real_of_int j / real_of_int n) < 1" .
qed




section \<open>The calls the stages make\<close>

lemma foldl_push_back: "foldl (\<lambda>v a. push_back v (f a)) init xs = init @ map f xs"
  by (induction xs arbitrary: init) (simp_all add: push_back_def)

lemma polys_AddPath: "polys (AddPath c p t b) = polys c @ [(p, t, b)]"
  by (simp add: AddPath_def)

lemma polys_AddPaths: "polys (AddPaths c ps t b) = polys c @ map (\<lambda>p. (p, t, b)) ps"
  unfolding AddPaths_def by (induction ps arbitrary: c) (simp_all add: polys_AddPath)

lemma polys_subject: "polys (AddPaths c ps ptSubject True) = polys c @ asSubject ps"
  by (simp add: polys_AddPaths asSubject_def)

lemma polys_clip: "polys (AddPaths c ps ptClip True) = polys c @ asClip ps"
  by (simp add: polys_AddPaths asClip_def)

lemma Clear_new: "Clear c = newClipper"
  by (simp add: Clear_def newClipper_def)

lemma OffsetClear_new: "OffsetClear off = newClipperOffset"
  by (simp add: OffsetClear_def newClipperOffset_def)

lemma polys_new: "polys newClipper = []"
  by (simp add: newClipper_def)

lemmas clipper_simps = polys_AddPath polys_subject polys_clip Clear_new polys_new
  Execute_def ExecuteDefault_def

lemma buildPaths_eq:
  "buildPaths lib regions = replicate (length regions) [] @ map (fixedPath lib) regions"
  unfolding buildPaths_def fixedPath_def scaled_def[abs_def] Let_def foldl_push_back by simp

lemma clipByRect_eq:
  "clipByRect lib c rect subjects =
     (executeClip lib ctIntersection (defaultFill lib) (defaultFill lib)
        (polys c @ asSubject subjects @ [(rect, ptClip, True)]), newClipper)"
  by (simp add: clipByRect_def Let_def clipper_simps)

lemma clipRoads_eq:
  "clipRoads lib c context roads =
     clipByRect lib newClipper (clipRect context)
       (executeClip lib ctDifference pftPositive pftPositive
          (polys c @ asClip (water context) @ asSubject roads))"
  by (simp add: clipRoads_def Let_def clipper_simps)

lemma water_loop:
  "polys (foldl (\<lambda>clipper region. AddPath clipper (fixedPath lib region) ptSubject True) c regions)
     = polys c @ asSubject (map (fixedPath lib) regions)"
  by (induction regions arbitrary: c) (simp_all add: polys_AddPath asSubject_def)

lemma buildWater_eq:
  "buildWater lib c context regions =
     (newClipper,
      context\<lparr>water := fst (clipByRect lib newClipper (clipRect context)
         (executeClip lib ctUnion (defaultFill lib) (defaultFill lib)
            (polys c @ asSubject (map (fixedPath lib) regions))))\<rparr>)"
proof -
  have loop: "(\<lambda>clipper region.
                 let p = foldl (\<lambda>p point. push_back p (IntPoint lib (roundDouble (fst point * real Scale)) (roundDouble (snd point * real Scale))))
                               (replicate (length (points region)) (0, 0)) (points region)
                 in AddPath clipper p ptSubject True)
              = (\<lambda>clipper region. AddPath clipper (fixedPath lib region) ptSubject True)"
    by (simp add: Let_def foldl_push_back fixedPath_def scaled_def[abs_def])
  show ?thesis
    unfolding buildWater_def loop
    by (simp add: Let_def clipper_simps clipByRect_eq water_loop)
qed

lemma offset_body:
  "(\<lambda>(clipper, offset) r.
             let offset = OffsetAddPaths offset (buildPaths lib (snd r)) jtMiter etOpenSquare;
                 offsetSolution = OffsetExecute lib offset (real_of_int (fst r));
                 clipper = AddPaths clipper offsetSolution ptSubject True;
                 offset = OffsetClear offset
             in (clipper, offset))
   = (\<lambda>(clipper, offset) r.
        (AddPaths clipper (executeOffset lib (offsetPolys offset @
             map (\<lambda>p. (p, jtMiter, etOpenSquare)) (buildPaths lib (snd r))) (real_of_int (fst r)))
           ptSubject True, newClipperOffset))"
  by (simp add: fun_eq_iff Let_def OffsetClear_new OffsetExecute_def OffsetAddPaths_def)

lemma offset_loop:
  "foldl (\<lambda>(clipper, offset) r.
        (AddPaths clipper (executeOffset lib (offsetPolys offset @
             map (\<lambda>p. (p, jtMiter, etOpenSquare)) (buildPaths lib (snd r))) (real_of_int (fst r)))
           ptSubject True, newClipperOffset))
         (c, newClipperOffset) roads
     = (\<lparr>polys = polys c @ asSubject (concat (map (offsetOf lib) roads))\<rparr>, newClipperOffset)"
proof (induction roads arbitrary: c)
  case Nil
  show ?case by (simp add: asSubject_def)
next
  case (Cons r roads)
  have step: "AddPaths c (executeOffset lib (offsetPolys newClipperOffset @
                 map (\<lambda>p. (p, jtMiter, etOpenSquare)) (buildPaths lib (snd r))) (real_of_int (fst r)))
                ptSubject True
              = \<lparr>polys = polys c @ asSubject (offsetOf lib r)\<rparr>"
    by (rule Clipper.equality)
       (simp_all add: polys_subject newClipperOffset_def offsetOf_def)
  show ?case
    by (simp add: step Cons.IH) (simp add: asSubject_def)
qed

lemma buildOffsetSolution_eq:
  "buildOffsetSolution lib c newClipperOffset roads =
     (executeClip lib ctUnion pftPositive pftPositive
        (polys c @ asSubject (concat (map (offsetOf lib) roads))),
      newClipper, newClipperOffset)"
  unfolding buildOffsetSolution_def offset_body offset_loop
  by (simp add: Let_def clipper_simps)

lemma offsetSolutionOf_eq:
  "offsetSolutionOf lib roads =
     executeClip lib ctUnion pftPositive pftPositive (asSubject (concat (map (offsetOf lib) roads)))"
  by (simp add: offsetSolutionOf_def buildOffsetSolution_eq polys_new)

lemma buildRoads_eq:
  "buildRoads lib newClipper context carMap walkMap =
     (let carRoadPaths = offsetSolutionOf lib carMap;
          walkRoadsPaths = offsetSolutionOf lib walkMap;
          extrudedWalkRoads = executeClip lib ctDifference (defaultFill lib) (defaultFill lib)
                                (asClip carRoadPaths @ asSubject walkRoadsPaths)
      in (newClipper,
          context\<lparr>carRoads := fst (clipRoads lib newClipper context carRoadPaths),
                  walkRoads := fst (clipRoads lib newClipper context extrudedWalkRoads)\<rparr>))"
  unfolding buildRoads_def
  by (simp add: Let_def buildOffsetSolution_eq offsetSolutionOf_eq clipper_simps clipRoads_eq clipByRect_eq)

lemma surfaces_loop:
  "foldl (\<lambda>(clipper, context) surfacePair.
              let paths = buildPaths lib (snd surfacePair);
                  clipper = AddPaths clipper paths ptSubject True;
                  surfacesUnion = ExecuteDefault lib clipper ctUnion;
                  clipper = Clear clipper;
                  clipper = AddPaths clipper (carRoads context) ptClip True;
                  clipper = AddPaths clipper (walkRoads context) ptClip True;
                  clipper = AddPaths clipper (water context) ptClip True;
                  clipper = AddPaths clipper (surfaces context) ptClip True;
                  clipper = AddPaths clipper surfacesUnion ptSubject True;
                  result = Execute lib clipper ctDifference pftPositive pftPositive;
                  clipper = Clear clipper;
                  (result, clipper) = clipByRect lib clipper (clipRect context) result
              in (clipper, context\<lparr>surfaces := surfaces context @ result\<rparr>))
           (newClipper, ctx) es
   = (newClipper, commitSurfaces lib ctx es)"
  by (induction es arbitrary: ctx)
     (simp_all add: Let_def clipper_simps clipByRect_eq surfacePatch_def)

lemma buildSurfaces_eq:
  "buildSurfaces lib newClipper context surfaceMap =
     (newClipper, commitSurfaces lib context (RBT.entries surfaceMap))"
  unfolding buildSurfaces_def by (rule surfaces_loop)

lemma buildBackground_eq:
  "buildBackground lib newClipper context =
     (newClipper,
      context\<lparr>background := executeClip lib ctDifference pftPositive pftPositive
         ((clipRect context, ptSubject, True) #
          asClip (carRoads context) @ asClip (walkRoads context) @ asClip (water context) @
          asClip (surfaces context))\<rparr>)"
  by (simp add: buildBackground_def Let_def clipper_simps)

lemma commitSurfaces_fields:
  "clipRect (commitSurfaces lib ctx es) = clipRect ctx"
  "water (commitSurfaces lib ctx es) = water ctx"
  "carRoads (commitSurfaces lib ctx es) = carRoads ctx"
  "walkRoads (commitSurfaces lib ctx es) = walkRoads ctx"
  "background (commitSurfaces lib ctx es) = background ctx"
  "splitter (commitSurfaces lib ctx es) = splitter ctx"
  "mesh (commitSurfaces lib ctx es) = mesh ctx"
  by (induction es arbitrary: ctx) simp_all

lemma buildContext_eq:
  "buildContext lib builder tileRect =
     snd (buildBackground lib newClipper (afterSurfaces lib builder tileRect))"
  unfolding buildContext_def afterSurfaces_def afterRoads_def afterWater_def
  by (simp add: Let_def buildWater_eq buildRoads_eq buildSurfaces_eq buildBackground_eq split: prod.splits)

lemma afterWater_fields:
  "clipRect (afterWater lib builder tileRect) = createPathFromRect lib tileRect"
  "mesh (afterWater lib builder tileRect) = \<lparr>vertices = [], triangles = []\<rparr>"
  "splitter (afterWater lib builder tileRect) = \<lparr>gridCellSize = 1, roundDigitCount = 8\<rparr>"
  by (simp_all add: afterWater_def buildWater_eq newTerraContext_def)

lemma afterRoads_fields:
  "clipRect (afterRoads lib builder tileRect) = createPathFromRect lib tileRect"
  "mesh (afterRoads lib builder tileRect) = \<lparr>vertices = [], triangles = []\<rparr>"
  "water (afterRoads lib builder tileRect) = water (afterWater lib builder tileRect)"
  by (simp_all add: afterRoads_def buildRoads_eq Let_def afterWater_fields)

lemma afterSurfaces_fields:
  "clipRect (afterSurfaces lib builder tileRect) = createPathFromRect lib tileRect"
  "mesh (afterSurfaces lib builder tileRect) = \<lparr>vertices = [], triangles = []\<rparr>"
  "water (afterSurfaces lib builder tileRect) = water (afterWater lib builder tileRect)"
  "carRoads (afterSurfaces lib builder tileRect) = carRoads (afterRoads lib builder tileRect)"
  "walkRoads (afterSurfaces lib builder tileRect) = walkRoads (afterRoads lib builder tileRect)"
  by (simp_all add: afterSurfaces_def buildSurfaces_eq commitSurfaces_fields afterRoads_fields)

lemma buildContext_fields:
  "clipRect (buildContext lib builder tileRect) = createPathFromRect lib tileRect"
  "mesh (buildContext lib builder tileRect) = \<lparr>vertices = [], triangles = []\<rparr>"
  "water (buildContext lib builder tileRect) = water (afterWater lib builder tileRect)"
  "carRoads (buildContext lib builder tileRect) = carRoads (afterRoads lib builder tileRect)"
  "walkRoads (buildContext lib builder tileRect) = walkRoads (afterRoads lib builder tileRect)"
  "surfaces (buildContext lib builder tileRect) = surfaces (afterSurfaces lib builder tileRect)"
  by (simp_all add: buildContext_eq buildBackground_eq afterSurfaces_fields)

lemma createPathFromRect_eq:
  "createPathFromRect lib tileRect =
     (let corner = IntPoint lib (roundDouble (xMin tileRect * real Scale))
                                (roundDouble (yMin tileRect * real Scale))
      in [corner, corner, corner, corner])"
  by (simp add: createPathFromRect_def Let_def push_back_def)

lemma background_eq:
  "background (buildContext lib builder tileRect) =
     executeClip lib ctDifference pftPositive pftPositive
       ((createPathFromRect lib tileRect, ptSubject, True) #
        asClip (carRoads (buildContext lib builder tileRect) @
                walkRoads (buildContext lib builder tileRect) @
                water (buildContext lib builder tileRect) @
                surfaces (buildContext lib builder tileRect)))"
  by (simp add: buildContext_fields)
     (simp add: buildContext_eq buildBackground_eq afterSurfaces_fields asClip_def)

section \<open>Conversions of concrete values\<close>

lemma isDouble_numeral: "numeral n < (2::int) ^ 53 \<Longrightarrow> isDouble (numeral n)"
  by (rule isDoubleI [of "numeral n" 0]) simp_all

lemma roundDouble_zero: "roundDouble 0 = 0"
  by (simp add: roundDouble_def)

lemma roundDouble_numeral: "numeral n < (2::int) ^ 53 \<Longrightarrow> roundDouble (numeral n) = numeral n"
  by (rule roundDouble_exact) (rule isDouble_numeral)

lemma toCInt_zero: "toCInt lib 0 = 0"
  by (simp add: toCInt_def inCIntRange_def)

lemma toCInt_numeral: "numeral n < (2::int) ^ 63 \<Longrightarrow> toCInt lib (numeral n) = numeral n"
proof -
  assume "numeral n < (2::int) ^ 63"
  then have "real_of_int (numeral n) < real_of_int (2 ^ 63)"
    by (simp only: of_int_less_iff)
  then have "inCIntRange (numeral n)"
    by (simp add: inCIntRange_def)
  then show ?thesis
    by (simp add: toCInt_def)
qed

lemmas conversion_simps = scaled_def IntPoint_def Scale_def roundDouble_zero roundDouble_numeral
  toCInt_zero toCInt_numeral

lemma corner_origin: "createPathFromRect lib scenarioTile = [(0, 0), (0, 0), (0, 0), (0, 0)]"
  by (simp add: scenarioTile_def createPathFromRect_eq Let_def IntPoint_def roundDouble_zero toCInt_zero)

lemma fixedPath_squares:
  "map (fixedPath lib) overlappingSquares =
     [[(0, 0), (0, 0), (0, 0), (0, 0),
       (200000000, 200000000), (600000000, 200000000),
       (600000000, 600000000), (200000000, 600000000)],
      [(0, 0), (0, 0), (0, 0), (0, 0),
       (400000000, 400000000), (800000000, 400000000),
       (800000000, 800000000), (400000000, 800000000)]]"
  by (simp add: overlappingSquares_def fixedPath_def conversion_simps)

lemma entries_empty: "RBT.entries (RBT.empty :: (int, MeshRegions) rbt) = []"
  by (simp add: RBT.entries.rep_eq RBT.impl_of_empty)

lemma entries_single: "RBT.entries (RBT.insert k v RBT.empty) = [(k, v)]"
  by (simp add: RBT.entries.rep_eq RBT.insert.rep_eq RBT.impl_of_empty rbt_insert_def
        rbt_insert_with_key_def)

section \<open>Fixed-point conversion\<close>

text \<open>
  Claim C4 (the fixed-point path of a region has exactly the region's points, scaled, and
  so the region's length).  The code at the region with the single point \<open>(1, 2)\<close>:
  \<^verbatim>\<open>buildPaths\<close> returns two paths, an empty one and one of two points, the first of
  which is the origin.  The sized constructors \<^verbatim>\<open>Paths paths(n)\<close> and \<^verbatim>\<open>Path p(n)\<close>
  put \<open>n\<close> elements in front of the ones the loops push.
\<close>

theorem buildPaths_single_point:
  "buildPaths lib [\<lparr>points = [(1, 2)]\<rparr>] = [[], [(0, 0), (100000000, 200000000)]]"
  by (simp add: buildPaths_eq fixedPath_def conversion_simps)

section \<open>The mesh that build returns\<close>

text \<open>
  Claim C9: whatever the tile rectangle and the state of the builder, \<^verbatim>\<open>build\<close>
  returns a mesh without vertices and without triangles, the mesh the context was
  constructed with; no stage calls \<^verbatim>\<open>populateMesh\<close> or writes the mesh otherwise.
\<close>

theorem build_returns_empty_mesh:
  "build lib builder tileRect = \<lparr>vertices = [], triangles = []\<rparr> \<and>
   build lib builder tileRect = mesh (newTerraContext 1 8)"
  by (simp add: build_def buildContext_fields newTerraContext_def)

section \<open>The clip rectangle\<close>

text \<open>
  Claim C1 (the five committed sets partition the tile rectangle).  The code at the tile
  \<open>(0,0)-(10,10)\<close>: the clip path every stage intersects with, and from which the
  background is cut, is the corner \<open>(xMin, yMin)\<close> four times; \<^verbatim>\<open>createPathFromRect\<close>
  never reads \<^verbatim>\<open>xMax\<close> or \<^verbatim>\<open>yMax\<close>.
\<close>

theorem build_clipRect_single_corner:
  "clipRect (buildContext lib builder \<lparr>xMin = 0, yMin = 0, xMax = 10, yMax = 10\<rparr>)
     = [(0, 0), (0, 0), (0, 0), (0, 0)]"
  by (simp add: buildContext_fields createPathFromRect_eq Let_def IntPoint_def roundDouble_zero toCInt_zero)

section \<open>The background\<close>

text \<open>
  Claim C2 (the background is the tile rectangle minus the other committed sets; in the
  scenario it is the L-shaped complement of area 75).  The code at the scenario: the
  one subject of the difference is the path that lists the corner \<open>(0,0)\<close> four times,
  not the square \<open>(0,0)-(10,10)\<close>; the clips are the committed car roads, walk roads
  and water (no surface is committed).
\<close>

theorem scenario_background:
  "background (buildContext lib scenarioBuilder scenarioTile) =
     executeClip lib ctDifference pftPositive pftPositive
       (([(0, 0), (0, 0), (0, 0), (0, 0)], ptSubject, True) #
        asClip (carRoads (buildContext lib scenarioBuilder scenarioTile) @
                walkRoads (buildContext lib scenarioBuilder scenarioTile) @
                water (buildContext lib scenarioBuilder scenarioTile)))"
proof -
  have "surfaces (buildContext lib scenarioBuilder scenarioTile)
          = surfaces (afterRoads lib scenarioBuilder scenarioTile)"
    by (simp add: buildContext_fields afterSurfaces_def buildSurfaces_eq scenarioBuilder_def entries_empty)
  also have "\<dots> = []"
    by (simp add: afterRoads_def buildRoads_eq Let_def afterWater_def buildWater_eq newTerraContext_def)
  finally have "surfaces (buildContext lib scenarioBuilder scenarioTile) = []" .
  then show ?thesis
    by (simp add: background_eq corner_origin)
qed

section \<open>The water stage\<close>

text \<open>
  Claim C3 (the water stage unites the regions' fixed-point paths under the positive fill
  rule, so that overlapping regions merge, and intersects the union with the tile
  rectangle).  The code at two water squares \<open>(2,2)-(6,6)\<close> and \<open>(4,4)-(8,8)\<close>
  that overlap, for every engine and every context: \<^verbatim>\<open>Execute(ctUnion, solution)\<close>
  names no fill type, so the union (like the intersection of \<^verbatim>\<open>clipByRect\<close>) runs
  under the fill type \<^verbatim>\<open>Execute\<close> defaults to, not under \<^verbatim>\<open>pftPositive\<close>, which the
  other unions and differences of the file pass; each path starts with four points
  \<open>(0,0)\<close> that are not points of its region; and in \<^verbatim>\<open>build\<close>, for the tile
  \<open>(0,0)-(10,10)\<close>, the union is intersected with the corner \<open>(0,0)\<close> listed four
  times.
\<close>

theorem buildWater_overlapping_squares:
  "water (snd (buildWater lib newClipper ctx overlappingSquares)) =
     executeClip lib ctIntersection (defaultFill lib) (defaultFill lib)
       (asSubject
          (executeClip lib ctUnion (defaultFill lib) (defaultFill lib)
             (asSubject
                [[(0, 0), (0, 0), (0, 0), (0, 0),
                  (200000000, 200000000), (600000000, 200000000),
                  (600000000, 600000000), (200000000, 600000000)],
                 [(0, 0), (0, 0), (0, 0), (0, 0),
                  (400000000, 400000000), (800000000, 400000000),
                  (800000000, 800000000), (400000000, 800000000)]])) @
        [(clipRect ctx, ptClip, True)]) \<and>
   water (buildContext lib overlappingWaters scenarioTile) =
     executeClip lib ctIntersection (defaultFill lib) (defaultFill lib)
       (asSubject
          (executeClip lib ctUnion (defaultFill lib) (defaultFill lib)
             (asSubject
                [[(0, 0), (0, 0), (0, 0), (0, 0),
                  (200000000, 200000000), (600000000, 200000000),
                  (600000000, 600000000), (200000000, 600000000)],
                 [(0, 0), (0, 0), (0, 0), (0, 0),
                  (400000000, 400000000), (800000000, 400000000),
                  (800000000, 800000000), (400000000, 800000000)]])) @
        [([(0, 0), (0, 0), (0, 0), (0, 0)], ptClip, True)])"
proof
  show "water (snd (buildWater lib newClipper ctx overlappingSquares)) =
     executeClip lib ctIntersection (defaultFill lib) (defaultFill lib)
       (asSubject
          (executeClip lib ctUnion (defaultFill lib) (defaultFill lib)
             (asSubject
                [[(0, 0), (0, 0), (0, 0), (0, 0),
                  (200000000, 200000000), (600000000, 200000000),
                  (600000000, 600000000), (200000000, 600000000)],
                 [(0, 0), (0, 0), (0, 0), (0, 0),
                  (400000000, 400000000), (800000000, 400000000),
                  (800000000, 800000000), (400000000, 800000000)]])) @
        [(clipRect ctx, ptClip, True)])"
    by (simp add: buildWater_eq clipByRect_eq polys_new fixedPath_squares)
  show "water (buildContext lib overlappingWaters scenarioTile) =
     executeClip lib ctIntersection (defaultFill lib) (defaultFill lib)
       (asSubject
          (executeClip lib ctUnion (defaultFill lib) (defaultFill lib)
             (asSubject
                [[(0, 0), (0, 0), (0, 0), (0, 0),
                  (200000000, 200000000), (600000000, 200000000),
                  (600000000, 600000000), (200000000, 600000000)],
                 [(0, 0), (0, 0), (0, 0), (0, 0),
                  (400000000, 400000000), (800000000, 400000000),
                  (800000000, 800000000), (400000000, 800000000)]])) @
        [([(0, 0), (0, 0), (0, 0), (0, 0)], ptClip, True)])"
    by (simp add: buildContext_fields afterWater_def buildWater_eq clipByRect_eq polys_new
          overlappingWaters_def fixedPath_squares corner_origin)
qed

section \<open>The road stage\<close>

text \<open>
  Claim C5 (the walk roads are committed from the walk road paths minus the car road
  paths; both road sets have the committed water subtracted under positive fill and are
  then intersected with the tile rectangle).  The code at the tile \<open>(0,0)-(10,10)\<close>,
  for every engine and every state of the builder: the differences are taken as the
  claim says, but the path both road sets are intersected with is the corner \<open>(0,0)\<close>
  listed four times, not the tile rectangle: \<^verbatim>\<open>clipRoads\<close> ends in
  \<^verbatim>\<open>clipByRect(clipper, context.clipRect, resultRoads)\<close>, and \<^verbatim>\<open>context.clipRect\<close> is
  what \<^verbatim>\<open>createPathFromRect\<close> returns.
\<close>

theorem build_roads_clipped_to_corner:
  "carRoads (buildContext lib builder scenarioTile) =
     executeClip lib ctIntersection (defaultFill lib) (defaultFill lib)
       (asSubject
          (executeClip lib ctDifference pftPositive pftPositive
             (asClip (water (buildContext lib builder scenarioTile)) @
              asSubject (fst (buildOffsetSolution lib newClipper newClipperOffset (carRoads_mem builder))))) @
        [([(0, 0), (0, 0), (0, 0), (0, 0)], ptClip, True)]) \<and>
   walkRoads (buildContext lib builder scenarioTile) =
     executeClip lib ctIntersection (defaultFill lib) (defaultFill lib)
       (asSubject
          (executeClip lib ctDifference pftPositive pftPositive
             (asClip (water (buildContext lib builder scenarioTile)) @
              asSubject
                (executeClip lib ctDifference (defaultFill lib) (defaultFill lib)
                   (asClip (fst (buildOffsetSolution lib newClipper newClipperOffset (carRoads_mem builder))) @
                    asSubject (fst (buildOffsetSolution lib newClipper newClipperOffset (walkRoads_mem builder))))))) @
        [([(0, 0), (0, 0), (0, 0), (0, 0)], ptClip, True)])"
  by (simp add: buildContext_fields afterRoads_def buildRoads_eq Let_def clipRoads_eq clipByRect_eq
        polys_new afterWater_fields corner_origin offsetSolutionOf_def)

section \<open>The surface stage\<close>

text \<open>
  Claim C6 (each key's regions are united under positive fill, the sets committed before
  are subtracted, the remainder is intersected with the tile rectangle, and the lowest key
  that contains a contested point wins it).  The code at one key with the two overlapping
  squares, for every engine and every context: \<^verbatim>\<open>Execute(ctUnion, surfacesUnion)\<close>
  names no fill type, so the union runs under the fill type \<^verbatim>\<open>Execute\<close> defaults to,
  not under \<^verbatim>\<open>pftPositive\<close>, which the difference two lines below passes; the union is
  taken of the four paths of \<^verbatim>\<open>buildPaths\<close>, two empty ones and the two squares, each
  behind four points \<open>(0,0)\<close>; the remainder is intersected with the clip path of the
  context.
\<close>

theorem buildSurfaces_same_key_union:
  "surfaces (snd (buildSurfaces lib newClipper ctx overlappingSurfaces)) =
     surfaces ctx @
     executeClip lib ctIntersection (defaultFill lib) (defaultFill lib)
       (asSubject
          (executeClip lib ctDifference pftPositive pftPositive
             (asClip (carRoads ctx) @ asClip (walkRoads ctx) @ asClip (water ctx) @ asClip (surfaces ctx) @
              asSubject
                (executeClip lib ctUnion (defaultFill lib) (defaultFill lib)
                   (asSubject
                      [[], [],
                       [(0, 0), (0, 0), (0, 0), (0, 0),
                        (200000000, 200000000), (600000000, 200000000),
                        (600000000, 600000000), (200000000, 600000000)],
                       [(0, 0), (0, 0), (0, 0), (0, 0),
                        (400000000, 400000000), (800000000, 400000000),
                        (800000000, 800000000), (400000000, 800000000)]])))) @
        [(clipRect ctx, ptClip, True)])"
proof -
  have "buildPaths lib overlappingSquares =
          [[], [],
           [(0, 0), (0, 0), (0, 0), (0, 0),
            (200000000, 200000000), (600000000, 200000000),
            (600000000, 600000000), (200000000, 600000000)],
           [(0, 0), (0, 0), (0, 0), (0, 0),
            (400000000, 400000000), (800000000, 400000000),
            (800000000, 800000000), (400000000, 800000000)]]"
    by (simp add: buildPaths_eq fixedPath_squares) (simp add: overlappingSquares_def)
  then show ?thesis
    by (simp add: buildSurfaces_eq overlappingSurfaces_def entries_single surfacePatch_def clipByRect_eq
          polys_new)
qed

section \<open>The filter of small polygons\<close>






section \<open>The grid snapper is not consulted\<close>

lemma surfacePatch_splitter: "surfacePatch lib (ctx\<lparr>splitter := sp\<rparr>) regions = surfacePatch lib ctx regions"
  by (simp add: surfacePatch_def)

lemma splitter_surfaces_swap:
  "(ctx\<lparr>splitter := sp\<rparr>)\<lparr>surfaces := ss\<rparr> = (ctx\<lparr>surfaces := ss\<rparr>)\<lparr>splitter := sp\<rparr>"
  by (cases ctx) simp

lemma commitSurfaces_splitter:
  "commitSurfaces lib (ctx\<lparr>splitter := sp\<rparr>) es = (commitSurfaces lib ctx es)\<lparr>splitter := sp\<rparr>"
proof (induction es arbitrary: ctx)
  case Nil
  show ?case by simp
next
  case (Cons e es)
  have "commitSurfaces lib (ctx\<lparr>splitter := sp\<rparr>) (e # es) =
        commitSurfaces lib ((ctx\<lparr>surfaces := surfaces ctx @ surfacePatch lib ctx (snd e)\<rparr>)\<lparr>splitter := sp\<rparr>) es"
    by (simp add: surfacePatch_splitter splitter_surfaces_swap)
  also have "\<dots> = (commitSurfaces lib (ctx\<lparr>surfaces := surfaces ctx @ surfacePatch lib ctx (snd e)\<rparr>) es)\<lparr>splitter := sp\<rparr>"
    by (rule Cons.IH)
  finally show ?case by simp
qed

lemma roundDouble_raw: "roundDouble (390625 / 2) = 390625 / 2"
  by (rule roundDouble_exact) (rule isDoubleI [of 390625 "- 1"], simp_all)

lemma roundDouble_snapped: "roundDouble (195313 / 100000000) = 2251805578292771 / 1152921504606846976"
  using roundDouble_eqI [of "- 9" "195313 / 100000000" 4503611156585542] by simp

lemma roundDouble_snapped_scaled:
  "roundDouble (879611554020613671875 / 4503599627370496) = 195313"
  using roundDouble_eqI [of 17 "879611554020613671875 / 4503599627370496" 6710903579869184]
  by simp

lemma snapCoordinate_example:
  "snapCoordinate \<lparr>gridCellSize = 1, roundDigitCount = 8\<rparr> (1 / 512) = 2251805578292771 / 1152921504606846976"
proof -
  have "round (390625 / 2 :: real) = 195313"
    by (simp add: round_def)
  then show ?thesis
    by (simp add: snapCoordinate_def roundDouble_raw roundDouble_snapped)
qed

lemma snapCoordinate_zero: "snapCoordinate s 0 = 0"
  by (simp add: snapCoordinate_def roundDouble_zero)

text \<open>
  Claim C8, as stated (every coordinate is quantized by the snapper before it is scaled),
  fails: the coordinate \<open>1 / 512 = 0.001953125\<close>, a \<^verbatim>\<open>double\<close>, is scaled to
  \<open>195312.5\<close> and converted to \<open>195312\<close>, where the coordinate snapped to eight
  digits, the \<^verbatim>\<open>double\<close> nearest to \<open>0.00195313\<close>, would be scaled and converted to
  \<open>195313\<close> (its product with \<open>10\<^sup>8\<close> is
  \<open>879611554020613671875 / 2\<^sup>5\<^sup>2\<close>, which rounds to \<open>195313\<close>).
\<close>

theorem buildPaths_not_snapped:
  "buildPaths echoLib [\<lparr>points = [(1 / 512, 0)]\<rparr>] = [[], [(0, 0), (195312, 0)]] \<and>
   buildPaths echoLib [snapRegion (splitter (newTerraContext 1 8)) \<lparr>points = [(1 / 512, 0)]\<rparr>]
     = [[], [(0, 0), (195313, 0)]]"
proof
  have raw: "toCInt echoLib (390625 / 2) = 195312"
    by (simp add: toCInt_def inCIntRange_def)
  show "buildPaths echoLib [\<lparr>points = [(1 / 512, 0)]\<rparr>] = [[], [(0, 0), (195312, 0)]]"
    by (simp add: buildPaths_eq fixedPath_def scaled_def IntPoint_def Scale_def roundDouble_zero
          toCInt_zero roundDouble_raw raw)
  show "buildPaths echoLib [snapRegion (splitter (newTerraContext 1 8)) \<lparr>points = [(1 / 512, 0)]\<rparr>]
     = [[], [(0, 0), (195313, 0)]]"
    by (simp add: buildPaths_eq fixedPath_def scaled_def IntPoint_def roundDouble_zero toCInt_zero
          snapRegion_def snapPoint_def newTerraContext_def snapCoordinate_example snapCoordinate_zero
          Scale_def roundDouble_snapped_scaled toCInt_numeral)
qed

text \<open>
  Claim C8, amended: no coordinate passes through the snapper.  \<^verbatim>\<open>build\<close> hands the
  regions of the builder to the four stages as they are; the water stage and
  \<^verbatim>\<open>buildPaths\<close>, through which the road and the surface stage convert their regions,
  take each coordinate as it is, multiply it by \<open>10\<^sup>8\<close> in \<^verbatim>\<open>double\<close> arithmetic
  and drop the fraction; and the \<^verbatim>\<open>LineGridSplitter\<close> of the context is read by no
  stage: each stage yields the same context whatever splitter it is given.
\<close>

theorem stages_convert_raw_coordinates:
  "buildContext lib builder tileRect =
     snd (buildBackground lib newClipper
       (snd (buildSurfaces lib newClipper
         (snd (buildRoads lib newClipper
           (snd (buildWater lib newClipper
                  ((newTerraContext 1 8)\<lparr>clipRect := createPathFromRect lib tileRect\<rparr>)
                  (waters_mem builder)))
           (carRoads_mem builder) (walkRoads_mem builder)))
         (surfaces_mem builder)))) \<and>
   water (snd (buildWater lib newClipper ctx regions)) =
     fst (clipByRect lib newClipper (clipRect ctx)
       (executeClip lib ctUnion (defaultFill lib) (defaultFill lib)
          (asSubject
             (map (\<lambda>region. replicate (length (points region)) (0, 0) @
                     map (\<lambda>point. (toCInt lib (roundDouble (fst point * 10 ^ 8)),
                                   toCInt lib (roundDouble (snd point * 10 ^ 8))))
                         (points region))
                  regions)))) \<and>
   buildPaths lib regions =
     replicate (length regions) [] @
     map (\<lambda>region. replicate (length (points region)) (0, 0) @
             map (\<lambda>point. (toCInt lib (roundDouble (fst point * 10 ^ 8)),
                           toCInt lib (roundDouble (snd point * 10 ^ 8))))
                 (points region))
         regions \<and>
   fst (buildOffsetSolution lib newClipper newClipperOffset roads) =
     executeClip lib ctUnion pftPositive pftPositive
       (asSubject
          (concat (map (\<lambda>r. executeOffset lib
                              (map (\<lambda>p. (p, jtMiter, etOpenSquare)) (buildPaths lib (snd r)))
                              (real_of_int (fst r)))
                       roads))) \<and>
   snd (buildRoads lib newClipper ctx carMap walkMap) =
     ctx\<lparr>carRoads :=
           fst (clipRoads lib newClipper ctx
                  (fst (buildOffsetSolution lib newClipper newClipperOffset carMap))),
         walkRoads :=
           fst (clipRoads lib newClipper ctx
                  (executeClip lib ctDifference (defaultFill lib) (defaultFill lib)
                     (asClip (fst (buildOffsetSolution lib newClipper newClipperOffset carMap)) @
                      asSubject (fst (buildOffsetSolution lib newClipper newClipperOffset walkMap)))))\<rparr> \<and>
   snd (buildSurfaces lib newClipper ctx surfaceMap) = commitSurfaces lib ctx (RBT.entries surfaceMap) \<and>
   snd (buildWater lib newClipper (ctx\<lparr>splitter := sp\<rparr>) regions)
     = (snd (buildWater lib newClipper ctx regions))\<lparr>splitter := sp\<rparr> \<and>
   snd (buildRoads lib newClipper (ctx\<lparr>splitter := sp\<rparr>) carMap walkMap)
     = (snd (buildRoads lib newClipper ctx carMap walkMap))\<lparr>splitter := sp\<rparr> \<and>
   snd (buildSurfaces lib newClipper (ctx\<lparr>splitter := sp\<rparr>) surfaceMap)
     = (snd (buildSurfaces lib newClipper ctx surfaceMap))\<lparr>splitter := sp\<rparr> \<and>
   snd (buildBackground lib newClipper (ctx\<lparr>splitter := sp\<rparr>))
     = (snd (buildBackground lib newClipper ctx))\<lparr>splitter := sp\<rparr>"
proof -
  have raw: "fixedPath lib =
      (\<lambda>region. replicate (length (points region)) (0, 0) @
             map (\<lambda>point. (toCInt lib (roundDouble (fst point * 10 ^ 8)),
                           toCInt lib (roundDouble (snd point * 10 ^ 8))))
                 (points region))"
    by (simp add: fun_eq_iff fixedPath_def scaled_def IntPoint_def Scale_def)
  have pipeline: "buildContext lib builder tileRect =
     snd (buildBackground lib newClipper
       (snd (buildSurfaces lib newClipper
         (snd (buildRoads lib newClipper
           (snd (buildWater lib newClipper
                  ((newTerraContext 1 8)\<lparr>clipRect := createPathFromRect lib tileRect\<rparr>)
                  (waters_mem builder)))
           (carRoads_mem builder) (walkRoads_mem builder)))
         (surfaces_mem builder))))"
    by (simp only: buildContext_eq afterSurfaces_def afterRoads_def afterWater_def)
  have waterStage: "water (snd (buildWater lib newClipper ctx regions)) =
     fst (clipByRect lib newClipper (clipRect ctx)
       (executeClip lib ctUnion (defaultFill lib) (defaultFill lib)
          (asSubject (map (fixedPath lib) regions))))"
    by (simp add: buildWater_eq polys_new)
  have offsets: "fst (buildOffsetSolution lib newClipper newClipperOffset roads) =
     executeClip lib ctUnion pftPositive pftPositive
       (asSubject
          (concat (map (\<lambda>r. executeOffset lib
                              (map (\<lambda>p. (p, jtMiter, etOpenSquare)) (buildPaths lib (snd r)))
                              (real_of_int (fst r)))
                       roads)))"
    by (simp add: buildOffsetSolution_eq polys_new offsetOf_def[abs_def])
  have roads: "snd (buildRoads lib newClipper ctx carMap walkMap) =
     ctx\<lparr>carRoads :=
           fst (clipRoads lib newClipper ctx
                  (fst (buildOffsetSolution lib newClipper newClipperOffset carMap))),
         walkRoads :=
           fst (clipRoads lib newClipper ctx
                  (executeClip lib ctDifference (defaultFill lib) (defaultFill lib)
                     (asClip (fst (buildOffsetSolution lib newClipper newClipperOffset carMap)) @
                      asSubject (fst (buildOffsetSolution lib newClipper newClipperOffset walkMap)))))\<rparr>"
    by (simp add: buildRoads_eq Let_def offsetSolutionOf_def)
  have surfaceStage: "snd (buildSurfaces lib newClipper ctx surfaceMap) = commitSurfaces lib ctx (RBT.entries surfaceMap)"
    by (simp add: buildSurfaces_eq)
  have ignored:
    "snd (buildWater lib newClipper (ctx\<lparr>splitter := sp\<rparr>) regions)
       = (snd (buildWater lib newClipper ctx regions))\<lparr>splitter := sp\<rparr>"
    "snd (buildRoads lib newClipper (ctx\<lparr>splitter := sp\<rparr>) carMap walkMap)
       = (snd (buildRoads lib newClipper ctx carMap walkMap))\<lparr>splitter := sp\<rparr>"
    "snd (buildSurfaces lib newClipper (ctx\<lparr>splitter := sp\<rparr>) surfaceMap)
       = (snd (buildSurfaces lib newClipper ctx surfaceMap))\<lparr>splitter := sp\<rparr>"
    "snd (buildBackground lib newClipper (ctx\<lparr>splitter := sp\<rparr>))
       = (snd (buildBackground lib newClipper ctx))\<lparr>splitter := sp\<rparr>"
    by (simp_all add: buildWater_eq buildRoads_eq Let_def clipRoads_eq clipByRect_eq buildSurfaces_eq
          commitSurfaces_splitter buildBackground_eq)
  show ?thesis
    using pipeline waterStage [unfolded raw] buildPaths_eq [of lib regions, unfolded raw]
      offsets roads surfaceStage ignored
    by blast
qed

section \<open>Trees along a way\<close>

lemma treeLoop_eq:
  "0 \<le> j \<Longrightarrow>
   treeLoop env treeMesh p1 p2 n j m =
     Inr (placeCopies env treeMesh
            (map (\<lambda>k. newPoint env p1 p2 (roundDouble (real_of_int k / real_of_int n))) [j..n - 1]) m)"
proof (induction env treeMesh p1 p2 n j m rule: treeLoop.induct)
  case (1 env treeMesh p1 p2 n j m)
  show ?case
  proof (cases "j < n")
    case True
    with "1.prems" have n: "n \<noteq> 0" and le: "j \<le> n - 1" by auto
    have list: "[j..n - 1] = j # [j + 1..n - 1]"
      using le by (simp add: upto_rec1)
    have "treeLoop env treeMesh p1 p2 n j m =
          treeLoop env treeMesh p1 p2 n (j + 1)
            (placeCopy env treeMesh m (newPoint env p1 p2 (roundDouble (real_of_int j / real_of_int n))))"
      using True n by (subst treeLoop.simps) (simp add: divide_double_def Let_def placeCopy_def)
    also have "\<dots> = Inr (placeCopies env treeMesh
            (map (\<lambda>k. newPoint env p1 p2 (roundDouble (real_of_int k / real_of_int n))) [j + 1..n - 1])
            (placeCopy env treeMesh m (newPoint env p1 p2 (roundDouble (real_of_int j / real_of_int n)))))"
      using True n "1.prems"
      by (intro "1.IH" [where b = "roundDouble (real_of_int j / real_of_int n)"])
         (simp_all add: divide_double_def placeCopy_def)
    finally show ?thesis
      by (simp add: list placeCopies_def)
  next
    case False
    then have "[j..n - 1] = []" by simp
    with False show ?thesis
      by (subst treeLoop.simps) (simp add: placeCopies_def)
  qed
qed

lemma static_cast_int_eq:
  "fitsInt q \<Longrightarrow> static_cast_int q = Inr (if 0 \<le> q then \<lfloor>q\<rfloor> else \<lceil>q\<rceil>)"
  by (simp add: static_cast_int_def)

lemma truncated_positions:
  "map (\<lambda>k. newPoint env p1 p2
              (roundDouble (real_of_int k / real_of_int (if 0 \<le> q then \<lfloor>q\<rfloor> else \<lceil>q\<rceil>))))
       [0..(if 0 \<le> q then \<lfloor>q\<rfloor> else \<lceil>q\<rceil>) - 1]
   = map (newPoint env p1 p2) (treeFractions \<lfloor>q\<rfloor>)"
proof (cases "0 \<le> q")
  case True
  then show ?thesis by (simp add: treeFractions_def comp_def)
next
  case False
  then have "\<lceil>q\<rceil> \<le> 0" and "\<lfloor>q\<rfloor> < 0"
    by (simp_all add: ceiling_le_iff floor_less_iff)
  with False show ?thesis by (simp add: treeFractions_def)
qed

lemma placeCopies_append:
  "placeCopies env treeMesh (ps @ qs) m = placeCopies env treeMesh qs (placeCopies env treeMesh ps m)"
  by (simp add: placeCopies_def)

lemma segment_member:
  assumes "Suc i < length cs"
  shows "(cs ! i, cs ! Suc i) \<in> set (segments cs)"
proof -
  have "zip cs (tl cs) ! i = (cs ! i, cs ! Suc i)"
    using assms by (simp add: nth_tl)
  moreover have "i < length (zip cs (tl cs))"
    using assms by simp
  ultimately show ?thesis
    unfolding segments_def by (metis nth_mem)
qed

lemma segment_in_range:
  assumes "inIntRange env step cs" and "Suc i < length cs"
  shows "fitsInt (roundDouble (distance env (cs ! i) (cs ! Suc i) / step))"
  using assms(1) segment_member [OF assms(2)] by (auto simp: inIntRange_def list_all_iff)

lemma wayLoop_eq:
  assumes "0 < step" and "inIntRange env step cs" and "cs \<noteq> []"
  shows "wayLoop env treeMesh step cs i m =
           Inr (placeCopies env treeMesh
                  (concat (map (\<lambda>(p1, p2). segmentPositions env step p1 p2)
                             (zip (drop i cs) (drop (Suc i) cs)))) m)"
  using assms
proof (induction env treeMesh step cs i m rule: wayLoop.induct)
  case (1 env treeMesh step cs i m)
  show ?case
  proof (cases "i < sizeMinusOne cs")
    case True
    with "1.prems" have next_in: "Suc i < length cs"
      by (simp add: sizeMinusOne_def)
    define q where "q = roundDouble (distance env (cs ! i) (cs ! Suc i) / step)"
    define n where "n = (if 0 \<le> q then \<lfloor>q\<rfloor> else \<lceil>q\<rceil>)"
    define m' where "m' = placeCopies env treeMesh (segmentPositions env step (cs ! i) (cs ! Suc i)) m"
    have d: "divide_double (distance env (cs ! i) (cs ! Suc i)) step = Inr q"
      using "1.prems"(1) by (simp add: divide_double_def q_def)
    have c: "static_cast_int q = Inr n"
      unfolding n_def q_def
      by (rule static_cast_int_eq) (rule segment_in_range [OF "1.prems"(2) next_in])
    have pos: "map (\<lambda>k. newPoint env (cs ! i) (cs ! Suc i) (roundDouble (real_of_int k / real_of_int n))) [0..n - 1]
                 = segmentPositions env step (cs ! i) (cs ! Suc i)"
      unfolding n_def segmentPositions_def q_def [symmetric] by (rule truncated_positions)
    have t: "treeLoop env treeMesh (cs ! i) (cs ! Suc i) n 0 m = Inr m'"
      by (simp only: treeLoop_eq [OF order_refl] pos m'_def)
    have rest: "wayLoop env treeMesh step cs (i + 1) m' =
           Inr (placeCopies env treeMesh
                  (concat (map (\<lambda>(p1, p2). segmentPositions env step p1 p2)
                             (zip (drop (i + 1) cs) (drop (Suc (i + 1)) cs)))) m')"
      using True next_in d c t "1.prems"
      by (intro "1.IH" [where b = q and ba = n]) simp_all
    have split: "zip (drop i cs) (drop (Suc i) cs) =
                   (cs ! i, cs ! Suc i) # zip (drop (Suc i) cs) (drop (Suc (Suc i)) cs)"
      using next_in
      by (metis Cons_nth_drop_Suc Suc_lessD zip_Cons_Cons)
    have "wayLoop env treeMesh step cs i m = wayLoop env treeMesh step cs (i + 1) m'"
      using True next_in d c t by (subst wayLoop.simps) (simp add: Let_def)
    with rest show ?thesis
      by (simp add: split placeCopies_append m'_def)
  next
    case False
    with "1.prems" have "length cs \<le> Suc i"
      by (simp add: sizeMinusOne_def)
    with False show ?thesis
      by (subst wayLoop.simps) (simp add: placeCopies_def)
  qed
qed

lemma visitWay_eq:
  assumes "0 < forElement env way TreeStepKey"
    and "inIntRange env (forElement env way TreeStepKey) (coordinates way)"
    and "coordinates way \<noteq> []"
  shows "visitWay env way =
           Inr (placeCopies env (generateTree env (forElement env way) (newMesh env ''''))
                  (placedPositions env (forElement env way TreeStepKey) (coordinates way))
                  (newMesh env (getMeshName env WayMeshNamePrefix way)))"
proof -
  have "zip (drop 0 (coordinates way)) (drop (Suc 0) (coordinates way)) = segments (coordinates way)"
    by (simp add: segments_def drop_Suc)
  then show ?thesis
    using wayLoop_eq [OF assms, of "generateTree env (forElement env way) (newMesh env '''')" 0]
    by (simp add: visitWay_def Let_def placedPositions_def)
qed

lemma length_treeFractions: "length (treeFractions n) = nat n"
  by (simp add: treeFractions_def)

lemma treeFractions_hd: "0 < n \<Longrightarrow> hd (treeFractions n) = 0"
  by (simp add: treeFractions_def upto_rec1 roundDouble_zero)

lemma treeFractions_none: "n \<le> 0 \<Longrightarrow> treeFractions n = []"
  by (simp add: treeFractions_def)

lemma treeFractions_range:
  assumes "n < 2 ^ 31" and "t \<in> set (treeFractions n)"
  shows "0 \<le> t \<and> t < 1"
proof -
  from assms(2) obtain j where "0 \<le> j" and "j < n"
    and t: "t = roundDouble (real_of_int j / real_of_int n)"
    by (auto simp: treeFractions_def)
  then show ?thesis
    unfolding t using assms(1) by (intro roundDouble_fraction_less_one)
qed

lemma fitsInt_quotient:
  assumes "fitsInt (roundDouble q)"
  shows "- (2 ^ 31) - 1 < q \<and> q < 2 ^ 31"
proof (intro conjI)
  show "- (2 ^ 31) - 1 < q"
  proof (rule ccontr)
    assume "\<not> - (2 ^ 31) - 1 < q"
    then have "q \<le> real_of_int (- (2 ^ 31) - 1) * 2 powi 0" by simp
    then have "roundDouble q \<le> real_of_int (- (2 ^ 31) - 1) * 2 powi 0"
      by (intro roundDouble_le_grid) simp_all
    with assms show False by (simp add: fitsInt_def)
  qed
  show "q < 2 ^ 31"
  proof (rule ccontr)
    assume "\<not> q < 2 ^ 31"
    then have "real_of_int (2 ^ 31) * 2 powi 0 \<le> q" by simp
    then have "real_of_int (2 ^ 31) * 2 powi 0 \<le> roundDouble q"
      by (intro roundDouble_ge_grid) simp_all
    with assms show False by (simp add: fitsInt_def)
  qed
qed

lemma floor_roundDouble:
  assumes "fitsInt (roundDouble q)"
  shows "\<lfloor>q\<rfloor> \<le> \<lfloor>roundDouble q\<rfloor> \<and> \<lfloor>roundDouble q\<rfloor> \<le> \<lfloor>q\<rfloor> + 1"
proof -
  define n where "n = \<lfloor>q\<rfloor>"
  have q: "real_of_int n \<le> q" "q < real_of_int n + 1"
    unfolding n_def by linarith+
  from fitsInt_quotient [OF assms] q have "real_of_int n < 2 ^ 31" "- (2 ^ 31) - 2 < real_of_int n"
    by linarith+
  then have "real_of_int n < real_of_int (2 ^ 31)" "real_of_int (- (2 ^ 31) - 2) < real_of_int n"
    by simp_all
  then have "n < 2 ^ 31" "- (2 ^ 31) - 2 < n"
    by (simp_all only: of_int_less_iff)
  then have small: "\<bar>n\<bar> < 2 ^ 53" "\<bar>n + 1\<bar> < 2 ^ 53"
    by simp_all
  have "real_of_int n * 2 powi 0 \<le> roundDouble q"
    using q small by (intro roundDouble_ge_grid) simp_all
  then have low: "n \<le> \<lfloor>roundDouble q\<rfloor>"
    by (simp add: le_floor_iff)
  have "roundDouble q \<le> real_of_int (n + 1) * 2 powi 0"
    using q small by (intro roundDouble_le_grid) simp_all
  then have "\<lfloor>roundDouble q\<rfloor> \<le> n + 1"
    by (simp add: floor_le_iff)
  with low show ?thesis
    by (simp add: n_def)
qed

lemma length_placeCopies_line:
  "length (placeCopies (lineCollaborators step) [v] ps m) = length m + length ps"
  unfolding placeCopies_def
  by (induction ps arbitrary: m) (simp_all add: placeCopy_def lineCollaborators_def)

lemma roundDouble_tenth: "roundDouble (1 / tenth) = 10"
  unfolding tenth_def
  using roundDouble_eqI [of 3 "1 / (3602879701896397 / 2 ^ 55)" 5629499534213120] by simp

lemma floor_tenth: "\<lfloor>1 / tenth\<rfloor> = 9"
  by (simp add: tenth_def floor_eq_iff)

text \<open>
  Claim C10, as stated (for every way of at least two coordinates and every positive tree
  step, each segment gets \<open>\<lfloor>distance / treeStep\<rfloor>\<close> copies), fails in two ways.
  Where the quotient does not fit an \<^verbatim>\<open>int\<close>: for two coordinates at distance 1000
  and the tree step \<open>2\<^sup>-\<^sup>2\<^sup>4\<close> the quotient is \<open>16777216000\<close>, and
  \<^verbatim>\<open>static_cast<int>\<close> of it is undefined.  And where the \<^verbatim>\<open>double\<close> quotient is
  rounded up to an integer: for two coordinates at distance 1 and the tree step
  \<^verbatim>\<open>0.1\<close>, the \<^verbatim>\<open>double\<close> nearest to \<open>1 / 10\<close>, which is a little above
  \<open>1 / 10\<close>, the integer part of the exact quotient is 9, the \<^verbatim>\<open>double\<close> quotient
  is 10, and 10 copies are placed.
\<close>

theorem visitWay_tree_count_out_of_range:
  "2 \<le> length (coordinates longWay) \<and>
   0 < forElement (lineCollaborators (1 / 2 ^ 24)) longWay TreeStepKey \<and>
   visitWay (lineCollaborators (1 / 2 ^ 24)) longWay = Inl IntOutOfRange \<and>
   2 \<le> length (coordinates unitWay) \<and>
   0 < forElement (lineCollaborators tenth) unitWay TreeStepKey \<and>
   \<lfloor>distance (lineCollaborators tenth) \<lparr>latitude = 0, longitude = 0\<rparr> \<lparr>latitude = 0, longitude = 1\<rparr>
      / tenth\<rfloor> = 9 \<and>
   map_sum id length (visitWay (lineCollaborators tenth) unitWay) = Inr 10"
proof -
  have long: "visitWay (lineCollaborators (1 / 2 ^ 24)) longWay = Inl IntOutOfRange"
    by (simp add: visitWay_def Let_def wayLoop.simps [of _ _ _ _ 0] sizeMinusOne_def divide_double_def
          static_cast_int_def fitsInt_def lineCollaborators_def longWay_def roundDouble_numeral)
  have positive: "0 < forElement (lineCollaborators tenth) unitWay TreeStepKey"
    by (simp add: lineCollaborators_def tenth_def)
  have step: "forElement (lineCollaborators tenth) unitWay TreeStepKey = tenth"
    by (simp add: lineCollaborators_def)
  have dist: "distance (lineCollaborators tenth) \<lparr>latitude = 0, longitude = 0\<rparr> \<lparr>latitude = 0, longitude = 1\<rparr> = 1"
    by (simp add: lineCollaborators_def)
  have segs: "segments (coordinates unitWay) = [(\<lparr>latitude = 0, longitude = 0\<rparr>, \<lparr>latitude = 0, longitude = 1\<rparr>)]"
    by (simp add: segments_def unitWay_def)
  have range: "inIntRange (lineCollaborators tenth)
                 (forElement (lineCollaborators tenth) unitWay TreeStepKey) (coordinates unitWay)"
    by (simp add: inIntRange_def step segs dist roundDouble_tenth fitsInt_def)
  have nonempty: "coordinates unitWay \<noteq> []"
    by (simp add: unitWay_def)
  have "length (placedPositions (lineCollaborators tenth) tenth (coordinates unitWay)) = 10"
    by (simp add: placedPositions_def segs segmentPositions_def dist roundDouble_tenth length_treeFractions)
  moreover have "generateTree (lineCollaborators tenth) (forElement (lineCollaborators tenth) unitWay)
                   (newMesh (lineCollaborators tenth) '''') = [(0, 0, 0)]"
    and "newMesh (lineCollaborators tenth) (getMeshName (lineCollaborators tenth) WayMeshNamePrefix unitWay) = []"
    by (simp_all add: lineCollaborators_def)
  ultimately have unit: "map_sum id length (visitWay (lineCollaborators tenth) unitWay) = Inr 10"
    by (simp add: visitWay_eq [OF positive range nonempty] step length_placeCopies_line)
  show ?thesis
    using long positive unit
    by (simp add: dist floor_tenth) (simp add: longWay_def unitWay_def lineCollaborators_def)
qed

text \<open>
  Claim C10, amended: for every way of at least two coordinates and every positive tree
  step such that the step and each segment's distance are \<^verbatim>\<open>double\<close>s and each
  segment's \<^verbatim>\<open>double\<close> quotient of distance and step (the exact quotient rounded to
  the nearest \<^verbatim>\<open>double\<close>) fits an \<^verbatim>\<open>int\<close> when its fraction is dropped,
  \<^verbatim>\<open>visitWay\<close> ends without fault (in particular no quotient \<open>j / treeCount\<close> has a
  zero divisor) and hands on the mesh with the copies at the points of
  \<open>placedPositions\<close>, in this order.  A segment gets as many copies as the integer part
  of its \<^verbatim>\<open>double\<close> quotient says (none for a negative quotient), which is the integer
  part of the exact quotient or one more; a segment shorter than the step gets none; a
  segment that gets copies has its first at the fraction \<open>0\<close>, and every fraction, a
  \<^verbatim>\<open>double\<close> quotient too, is below \<open>1\<close>.
\<close>

theorem visitWay_places_trees:
  fixes env :: "'mesh Collaborators" and way :: Way
  defines "step \<equiv> forElement env way TreeStepKey"
  defines "treeMesh \<equiv> generateTree env (forElement env way) (newMesh env '''')"
  assumes two: "2 \<le> length (coordinates way)"
    and positive: "0 < step"
    and doubles: "doubleDistances env step (coordinates way)"
    and range: "inIntRange env step (coordinates way)"
  shows "visitWay env way =
           Inr (placeCopies env treeMesh (placedPositions env step (coordinates way))
                  (newMesh env (getMeshName env WayMeshNamePrefix way))) \<and>
         (\<forall>(p1, p2) \<in> set (segments (coordinates way)).
            length (segmentPositions env step p1 p2) = nat \<lfloor>roundDouble (distance env p1 p2 / step)\<rfloor> \<and>
            \<lfloor>distance env p1 p2 / step\<rfloor> \<le> \<lfloor>roundDouble (distance env p1 p2 / step)\<rfloor> \<and>
            \<lfloor>roundDouble (distance env p1 p2 / step)\<rfloor> \<le> \<lfloor>distance env p1 p2 / step\<rfloor> + 1 \<and>
            (distance env p1 p2 < step \<longrightarrow> segmentPositions env step p1 p2 = []) \<and>
            (step \<le> distance env p1 p2 \<longrightarrow>
               hd (segmentPositions env step p1 p2) = newPoint env p1 p2 0) \<and>
            (\<forall>t \<in> set (treeFractions \<lfloor>roundDouble (distance env p1 p2 / step)\<rfloor>). 0 \<le> t \<and> t < 1))"
proof
  from two have nonempty: "coordinates way \<noteq> []" by auto
  show "visitWay env way =
           Inr (placeCopies env treeMesh (placedPositions env step (coordinates way))
                  (newMesh env (getMeshName env WayMeshNamePrefix way)))"
    unfolding step_def treeMesh_def
    by (rule visitWay_eq [OF positive [unfolded step_def] range [unfolded step_def] nonempty])
next
  show "\<forall>(p1, p2) \<in> set (segments (coordinates way)).
            length (segmentPositions env step p1 p2) = nat \<lfloor>roundDouble (distance env p1 p2 / step)\<rfloor> \<and>
            \<lfloor>distance env p1 p2 / step\<rfloor> \<le> \<lfloor>roundDouble (distance env p1 p2 / step)\<rfloor> \<and>
            \<lfloor>roundDouble (distance env p1 p2 / step)\<rfloor> \<le> \<lfloor>distance env p1 p2 / step\<rfloor> + 1 \<and>
            (distance env p1 p2 < step \<longrightarrow> segmentPositions env step p1 p2 = []) \<and>
            (step \<le> distance env p1 p2 \<longrightarrow>
               hd (segmentPositions env step p1 p2) = newPoint env p1 p2 0) \<and>
            (\<forall>t \<in> set (treeFractions \<lfloor>roundDouble (distance env p1 p2 / step)\<rfloor>). 0 \<le> t \<and> t < 1)"
  proof (clarify, intro conjI impI ballI)
    fix p1 p2
    show "length (segmentPositions env step p1 p2) = nat \<lfloor>roundDouble (distance env p1 p2 / step)\<rfloor>"
      by (simp add: segmentPositions_def length_treeFractions)
  next
    fix p1 p2 assume "(p1, p2) \<in> set (segments (coordinates way))"
    with range have fits: "fitsInt (roundDouble (distance env p1 p2 / step))"
      by (auto simp: inIntRange_def list_all_iff)
    from floor_roundDouble [OF fits]
    show "\<lfloor>distance env p1 p2 / step\<rfloor> \<le> \<lfloor>roundDouble (distance env p1 p2 / step)\<rfloor>"
      and "\<lfloor>roundDouble (distance env p1 p2 / step)\<rfloor> \<le> \<lfloor>distance env p1 p2 / step\<rfloor> + 1"
      by simp_all
  next
    fix p1 p2 assume seg: "(p1, p2) \<in> set (segments (coordinates way))"
      and short: "distance env p1 p2 < step"
    from seg doubles have "isDouble (distance env p1 p2)" and "isDouble step"
      by (auto simp: doubleDistances_def list_all_iff)
    then have "roundDouble (distance env p1 p2 / step) < 1"
      using short positive by (rule roundDouble_quotient_less_one)
    then have "\<lfloor>roundDouble (distance env p1 p2 / step)\<rfloor> \<le> 0"
      by (simp add: floor_le_iff)
    then show "segmentPositions env step p1 p2 = []"
      by (simp add: segmentPositions_def treeFractions_none)
  next
    fix p1 p2 assume "step \<le> distance env p1 p2"
    with positive have "1 \<le> distance env p1 p2 / step"
      by simp
    then have "1 \<le> roundDouble (distance env p1 p2 / step)"
      by (rule roundDouble_ge_one)
    then have pos: "0 < \<lfloor>roundDouble (distance env p1 p2 / step)\<rfloor>"
      by (simp add: less_floor_iff)
    then have "treeFractions \<lfloor>roundDouble (distance env p1 p2 / step)\<rfloor> \<noteq> []"
      using length_treeFractions [of "\<lfloor>roundDouble (distance env p1 p2 / step)\<rfloor>"] by auto
    then show "hd (segmentPositions env step p1 p2) = newPoint env p1 p2 0"
      using treeFractions_hd [OF pos] by (simp add: segmentPositions_def hd_map)
  next
    fix p1 p2 t assume seg: "(p1, p2) \<in> set (segments (coordinates way))"
      and t: "t \<in> set (treeFractions \<lfloor>roundDouble (distance env p1 p2 / step)\<rfloor>)"
    from seg range have "fitsInt (roundDouble (distance env p1 p2 / step))"
      by (auto simp: inIntRange_def list_all_iff)
    then have "\<lfloor>roundDouble (distance env p1 p2 / step)\<rfloor> < 2 ^ 31"
      by (simp add: fitsInt_def floor_less_iff)
    from treeFractions_range [OF this t] show "0 \<le> t" and "t < 1"
      by simp_all
  qed
qed

theorem visitWay_places_trees_witness:
  "2 \<le> length (coordinates lineWay) \<and>
   0 < forElement (lineCollaborators 4) lineWay TreeStepKey \<and>
   doubleDistances (lineCollaborators 4) (forElement (lineCollaborators 4) lineWay TreeStepKey) (coordinates lineWay) \<and>
   inIntRange (lineCollaborators 4) (forElement (lineCollaborators 4) lineWay TreeStepKey) (coordinates lineWay) \<and>
   visitWay (lineCollaborators 4) lineWay = Inr [(0, 0, 0), (5, 0, 0)]"
proof -
  have "roundDouble (5 / 2) = 5 / 2"
    by (rule roundDouble_exact) (rule isDoubleI [of 5 "- 1"], simp_all)
  moreover have "roundDouble (3 / 4) = 3 / 4"
    by (rule roundDouble_exact) (rule isDoubleI [of 3 "- 2"], simp_all)
  moreover have "roundDouble (1 / 2) = 1 / 2"
    by (rule roundDouble_exact) (rule isDoubleI [of 1 "- 1"], simp_all)
  ultimately have quotients: "roundDouble (5 / 2) = 5 / 2" "roundDouble (3 / 4) = 3 / 4"
    "roundDouble (1 / 2) = 1 / 2"
    by blast+
  have two: "2 \<le> length (coordinates lineWay)"
    by (simp add: lineWay_def)
  have positive: "0 < forElement (lineCollaborators 4) lineWay TreeStepKey"
    by (simp add: lineCollaborators_def)
  have doubles: "doubleDistances (lineCollaborators 4) (forElement (lineCollaborators 4) lineWay TreeStepKey) (coordinates lineWay)"
    by (simp add: doubleDistances_def segments_def lineCollaborators_def lineWay_def isDouble_numeral)
  have range: "inIntRange (lineCollaborators 4) (forElement (lineCollaborators 4) lineWay TreeStepKey) (coordinates lineWay)"
    by (simp add: inIntRange_def fitsInt_def segments_def lineCollaborators_def lineWay_def quotients)
  have "placedPositions (lineCollaborators 4) 4 (coordinates lineWay)
          = [\<lparr>latitude = 0, longitude = 0\<rparr>, \<lparr>latitude = 0, longitude = 5\<rparr>]"
    by (simp add: placedPositions_def segments_def segmentPositions_def treeFractions_def
          lineCollaborators_def lineWay_def upto_rec1 quotients roundDouble_zero)
  then have "visitWay (lineCollaborators 4) lineWay = Inr [(0, 0, 0), (5, 0, 0)]"
    using visitWay_places_trees [OF two positive doubles range]
    by (simp add: lineCollaborators_def placeCopies_def placeCopy_def)
  with two positive doubles range show ?thesis by blast
qed

end
